theory Spec2Isabelle
  imports Main "HOL-Library.Word"
begin

section \<open>Conventions of the embedding\<close>

text \<open>
  The development embeds the three Python modules of the repository:
  \<^verbatim>\<open>etl_games.py\<close> (the ETL run), \<^verbatim>\<open>scraper.py\<close> (the configurable scraper) and
  \<^verbatim>\<open>api_games_sans_auth.py\<close> (the read API).

  \<^item> A Python \<^verbatim>\<open>str\<close> is a \<^typ>\<open>string\<close>; every \<^typ>\<open>char\<close> stands for one code
    point (those below 256), so \<^const>\<open>length\<close> counts what Python's \<^verbatim>\<open>len\<close> counts.
  \<^item> A Python value that may be \<^verbatim>\<open>None\<close> is an \<^typ>\<open>'a option\<close>.
  \<^item> A raised exception is the \<^const>\<open>Inl\<close> branch of a sum, a returned value the
    \<^const>\<open>Inr\<close> branch.
  \<^item> Python floats are an abstract type \<open>'f\<close>: the code only copies them.
  \<^item> What the outside world answers (HTTP servers, the HTML parser, the SQL engine,
    the hash function) is a parameter of the function that asks.
\<close>

datatype 'x error =
    RuntimeError string      \<comment> \<open>\<^verbatim>\<open>raise RuntimeError(...)\<close>\<close>
  | AssertionError           \<comment> \<open>a failed \<^verbatim>\<open>assert\<close>\<close>
  | AttributeError           \<comment> \<open>attribute access on \<^verbatim>\<open>None\<close>\<close>
  | KeyError string          \<comment> \<open>\<^verbatim>\<open>d[k]\<close> on a missing key\<close>
  | IndexError               \<comment> \<open>\<^verbatim>\<open>xs[i]\<close> out of range\<close>
  | TypeError                \<comment> \<open>iterating or slicing \<^verbatim>\<open>None\<close>\<close>
  | ValueError               \<comment> \<open>\<^verbatim>\<open>int(...)\<close> or \<^verbatim>\<open>float(...)\<close> on unparsable text\<close>
  | HTTPError nat            \<comment> \<open>\<^verbatim>\<open>raise_for_status()\<close> on a 4xx or 5xx status\<close>
  | Raised 'x                \<comment> \<open>any other exception a library call raised\<close>

section \<open>Python strings and lists\<close>

text \<open>\<^verbatim>\<open>xs[:n]\<close>: a negative \<open>n\<close> counts from the end.\<close>

definition py_slice_to :: "int \<Rightarrow> 'a list \<Rightarrow> 'a list" where
  "py_slice_to n xs =
     (if 0 \<le> n then take (nat n) xs else take (length xs - nat (- n)) xs)"

text \<open>\<^verbatim>\<open>sep.join(parts)\<close>.\<close>

fun py_join :: "string \<Rightarrow> string list \<Rightarrow> string" where
  "py_join sep [] = []"
| "py_join sep [x] = x"
| "py_join sep (x # y # ys) = x @ sep @ py_join sep (y # ys)"

text \<open>\<^verbatim>\<open>s.split(c)\<close> for a one-character separator: never an empty list.\<close>

fun py_split :: "char \<Rightarrow> string \<Rightarrow> string list" where
  "py_split c [] = [[]]"
| "py_split c (x # xs) =
     (if x = c then [] # py_split c xs
      else (case py_split c xs of
              [] \<Rightarrow> [[x]]
            | w # ws \<Rightarrow> (x # w) # ws))"

text \<open>\<^verbatim>\<open>s.replace(a, b)\<close> for one-character \<open>a\<close> and \<open>b\<close>.\<close>

definition py_replace :: "char \<Rightarrow> char \<Rightarrow> string \<Rightarrow> string" where
  "py_replace a b s = map (\<lambda>c. if c = a then b else c) s"

text \<open>\<^verbatim>\<open>str.isspace\<close> on the code points below 256.\<close>

definition py_isspace :: "char \<Rightarrow> bool" where
  "py_isspace c =
     (let n = (of_char c :: nat)
      in (9 \<le> n \<and> n \<le> 13) \<or> (28 \<le> n \<and> n \<le> 32) \<or> n = 133 \<or> n = 160)"

definition py_strip :: "string \<Rightarrow> string" where
  "py_strip s = rev (dropWhile py_isspace (rev (dropWhile py_isspace s)))"

text \<open>\<^verbatim>\<open>str.lower\<close> on the code points below 256: A-Z and the accented capitals.\<close>

definition lower_char :: "char \<Rightarrow> char" where
  "lower_char c =
     (let n = (of_char c :: nat)
      in if (65 \<le> n \<and> n \<le> 90) \<or> (192 \<le> n \<and> n \<le> 222 \<and> n \<noteq> 215)
         then char_of (n + 32) else c)"

definition py_lower :: "string \<Rightarrow> string" where
  "py_lower s = map lower_char s"

definition py_startswith :: "string \<Rightarrow> string \<Rightarrow> bool" where
  "py_startswith s p = (take (length p) s = p)"

text \<open>
  \<^verbatim>\<open>int(s)\<close> on a string: surrounding whitespace, an optional sign, decimal digits,
  single underscores between digits. \<^const>\<open>None\<close> stands for \<^verbatim>\<open>ValueError\<close>.
  The whitespace \<^verbatim>\<open>int\<close> skips is not that of \<^verbatim>\<open>str.strip\<close>: tab to carriage return,
  the space, and the two whitespace code points above 127; the separators U+001C to
  U+001F are rejected.
\<close>

definition int_isspace :: "char \<Rightarrow> bool" where
  "int_isspace c =
     (let n = (of_char c :: nat) in (9 \<le> n \<and> n \<le> 13) \<or> n = 32 \<or> n = 133 \<or> n = 160)"

definition is_digit :: "char \<Rightarrow> bool" where
  "is_digit c = (let n = (of_char c :: nat) in 48 \<le> n \<and> n \<le> 57)"

fun digits_ok :: "string \<Rightarrow> bool" where
  "digits_ok [] = False"
| "digits_ok [c] = is_digit c"
| "digits_ok (c # d # ds) =
     (is_digit c \<and> (if d = CHR ''_'' then digits_ok ds else digits_ok (d # ds)))"

definition digits_value :: "string \<Rightarrow> int" where
  "digits_value ds =
     foldl (\<lambda>a c. 10 * a + (int (of_char c) - 48)) 0 (filter (\<lambda>c. c \<noteq> CHR ''_'') ds)"

definition py_int :: "string \<Rightarrow> int option" where
  "py_int s =
     (let t = rev (dropWhile int_isspace (rev (dropWhile int_isspace s)));
          neg = (t \<noteq> [] \<and> hd t = CHR ''-'');
          u = (if t \<noteq> [] \<and> (hd t = CHR ''-'' \<or> hd t = CHR ''+'') then tl t else t)
      in if digits_ok u then Some (if neg then - digits_value u else digits_value u)
         else None)"

section \<open>The Game row\<close>

text \<open>
  Both producers build a dict with the same eight keys
  (\<^verbatim>\<open>etl_games.py\<close> lines 163-172, \<^verbatim>\<open>scraper.py\<close> lines 127-136).
\<close>

record 'f game =
  game_id :: "int option"
  title :: "string option"
  platforms :: "string option"
  genres :: "string option"
  release_date :: "string option"
  rating :: "'f option"
  source :: string
  raw_json :: "string option"

section \<open>\<^verbatim>\<open>etl_games.py\<close>: deduplication in \<^verbatim>\<open>main\<close>\<close>

text \<open>
  A Python dict keeps its keys in insertion order; assigning to a key that is already
  present replaces the value and leaves the key where it is.
\<close>

primrec dict_setitem :: "'k \<Rightarrow> 'v \<Rightarrow> ('k \<times> 'v) list \<Rightarrow> ('k \<times> 'v) list" where
  "dict_setitem k v [] = [(k, v)]"
| "dict_setitem k v (p # ps) =
     (if fst p = k then (k, v) # ps else p # dict_setitem k v ps)"

definition dict_values :: "('k \<times> 'v) list \<Rightarrow> 'v list" where
  "dict_values d = map snd d"

text \<open>
  \<^verbatim>\<open>
  dedup = {}
  for r in rows:
      if r.get("game_id") is None:
          continue
      dedup[r["game_id"]] = r
  rows = list(dedup.values())
  \<close>
\<close>

fun dedup_loop :: "(int \<times> 'f game) list \<Rightarrow> 'f game list \<Rightarrow> (int \<times> 'f game) list" where
  "dedup_loop dedup [] = dedup"
| "dedup_loop dedup (r # rows) =
     (case game_id r of
        None \<Rightarrow> dedup_loop dedup rows
      | Some k \<Rightarrow> dedup_loop (dict_setitem k r dedup) rows)"

definition dedup_rows :: "'f game list \<Rightarrow> 'f game list" where
  "dedup_rows rows = dict_values (dedup_loop [] rows)"

text \<open>The records of a batch that carry the id \<open>k\<close>, in input order.\<close>

definition with_id :: "int \<Rightarrow> 'f game list \<Rightarrow> 'f game list" where
  "with_id k rows = filter (\<lambda>r. game_id r = Some k) rows"

section \<open>\<^verbatim>\<open>etl_games.py\<close>: the world the run talks to\<close>

text \<open>
  The run is sequential. Its state is the number of HTTP requests sent so far and the
  log of the \<^verbatim>\<open>time.sleep\<close> calls, in seconds. What the \<open>n\<close>-th request of the run
  to a URL gets back is the parameter \<open>net\<close>: an exception of the HTTP library, or a
  response.
\<close>

record world =
  requests :: nat
  sleeps :: "int list"

record response =
  status_code :: nat
  retry_after :: "string option"   \<comment> \<open>\<^verbatim>\<open>headers.get("Retry-After")\<close>\<close>
  resp_text :: string

datatype param = PStr string | PInt int

type_synonym 'x net = "nat \<Rightarrow> string \<Rightarrow> (string \<times> param) list \<Rightarrow> 'x + response"

definition requests_get ::
  "'x net \<Rightarrow> string \<Rightarrow> (string \<times> param) list \<Rightarrow> world \<Rightarrow> ('x + response) \<times> world" where
  "requests_get net url params w =
     (net (requests w) url params, w\<lparr>requests := requests w + 1\<rparr>)"

text \<open>
  \<^verbatim>\<open>time.sleep(t)\<close> raises \<^verbatim>\<open>ValueError\<close> on a negative length. Lengths whose
  nanoseconds do not fit 64 bits (above 9223372036 seconds), on which it raises
  \<^verbatim>\<open>OverflowError\<close>, are not distinguished here.
\<close>

definition py_sleep :: "int \<Rightarrow> world \<Rightarrow> 'x error + world" where
  "py_sleep t w = (if t < 0 then Inl ValueError else Inr (w\<lparr>sleeps := sleeps w @ [t]\<rparr>))"

text \<open>\<^verbatim>\<open>resp.raise_for_status()\<close>.\<close>

definition raise_for_status :: "response \<Rightarrow> 'x error + unit" where
  "raise_for_status r =
     (if 400 \<le> status_code r \<and> status_code r < 600 then Inl (HTTPError (status_code r))
      else Inr ())"

section \<open>\<^verbatim>\<open>etl_games.py\<close>: \<^verbatim>\<open>rawg_fetch_latest\<close>\<close>

text \<open>
  A catalog entry, with the keys the code reads. For the keys read with \<^verbatim>\<open>g.get(k)\<close> a
  key that is absent or \<^verbatim>\<open>null\<close> is \<^const>\<open>None\<close>. For the keys read with
  \<^verbatim>\<open>g.get(k, [])\<close> the two differ: an absent key gives the empty list, \<^verbatim>\<open>null\<close> gives
  \<^verbatim>\<open>None\<close>, which the code then iterates or slices (a \<^verbatim>\<open>TypeError\<close>). The small objects
  inside \<^verbatim>\<open>platforms\<close> and \<^verbatim>\<open>genres\<close> are association lists, so that a missing
  \<^verbatim>\<open>"name"\<close> is a \<^verbatim>\<open>KeyError\<close> as in the source.
\<close>

datatype 'a json_field = Absent | Null | Present 'a

text \<open>\<^verbatim>\<open>d.get(k, [])\<close>, ready to be iterated or sliced.\<close>

definition get_list :: "'a list json_field \<Rightarrow> 'x error + 'a list" where
  "get_list v = (case v of Absent \<Rightarrow> Inr [] | Null \<Rightarrow> Inl TypeError | Present xs \<Rightarrow> Inr xs)"

type_synonym obj = "(string \<times> string) list"

record platform_item =
  platform :: "obj option"

record 'f rawg_entry =
  e_id :: "int option"
  e_name :: "string option"
  e_released :: "string option"
  e_platforms :: "platform_item list json_field"
  e_genres :: "obj list json_field"
  e_rating :: "'f option"

definition getitem :: "obj \<Rightarrow> string \<Rightarrow> 'x error + string" where
  "getitem d k = (case map_of d k of None \<Rightarrow> Inl (KeyError k) | Some v \<Rightarrow> Inr v)"

text \<open>
  \<^verbatim>\<open>[p["platform"]["name"] for p in g.get("platforms", []) if p.get("platform")]\<close>:
  an empty object is falsy and skipped.
\<close>

fun platform_names :: "platform_item list \<Rightarrow> 'x error + string list" where
  "platform_names [] = Inr []"
| "platform_names (p # ps) =
     (case platform p of
        None \<Rightarrow> platform_names ps
      | Some d \<Rightarrow>
          if d = [] then platform_names ps
          else (case getitem d ''name'' of
                  Inl e \<Rightarrow> Inl e
                | Inr n \<Rightarrow> (case platform_names ps of
                             Inl e \<Rightarrow> Inl e
                           | Inr ns \<Rightarrow> Inr (n # ns))))"

text \<open>\<^verbatim>\<open>[p["name"] for p in g.get("genres", [])]\<close>.\<close>

fun genre_names :: "obj list \<Rightarrow> 'x error + string list" where
  "genre_names [] = Inr []"
| "genre_names (p # ps) =
     (case getitem p ''name'' of
        Inl e \<Rightarrow> Inl e
      | Inr n \<Rightarrow> (case genre_names ps of
                   Inl e \<Rightarrow> Inl e
                 | Inr ns \<Rightarrow> Inr (n # ns)))"

text \<open>\<^verbatim>\<open>s[:255] if s else None\<close>.\<close>

definition trunc255 :: "string option \<Rightarrow> string option" where
  "trunc255 s = (case s of None \<Rightarrow> None | Some t \<Rightarrow> if t = [] then None else Some (take 255 t))"

text \<open>\<^verbatim>\<open>s or None\<close>.\<close>

definition or_none :: "string option \<Rightarrow> string option" where
  "or_none s = (case s of None \<Rightarrow> None | Some t \<Rightarrow> if t = [] then None else Some t)"

text \<open>
  The body of the loop over the entries (lines 157-172). \<open>dumps\<close> is \<^verbatim>\<open>json.dumps\<close>.
\<close>

definition rawg_normalize :: "('f rawg_entry \<Rightarrow> string) \<Rightarrow> 'f rawg_entry \<Rightarrow> 'x error + 'f game" where
  "rawg_normalize dumps g =
     (case get_list (e_platforms g) of Inl e \<Rightarrow> Inl e | Inr ps \<Rightarrow>
      case platform_names ps of Inl e \<Rightarrow> Inl e | Inr pn \<Rightarrow>
      case get_list (e_genres g) of Inl e \<Rightarrow> Inl e | Inr gs \<Rightarrow>
      case genre_names gs of
            Inl e \<Rightarrow> Inl e
          | Inr gn \<Rightarrow>
             Inr \<lparr> game_id = e_id g,
                   title = trunc255 (e_name g),
                   platforms = trunc255 (Some (py_join '', '' pn)),
                   genres = trunc255 (Some (py_join '', '' gn)),
                   release_date = or_none (e_released g),
                   rating = e_rating g,
                   source = ''rawg'',
                   raw_json = Some (dumps g) \<rparr>)"

fun rawg_normalize_all ::
  "('f rawg_entry \<Rightarrow> string) \<Rightarrow> 'f rawg_entry list \<Rightarrow> 'x error + 'f game list" where
  "rawg_normalize_all dumps [] = Inr []"
| "rawg_normalize_all dumps (g # gs) =
     (case rawg_normalize dumps g of
        Inl e \<Rightarrow> Inl e
      | Inr r \<Rightarrow> (case rawg_normalize_all dumps gs of
                   Inl e \<Rightarrow> Inl e
                 | Inr rs \<Rightarrow> Inr (r # rs)))"

text \<open>
  What the library calls of the catalog client answer: the network, \<^verbatim>\<open>resp.json()\<close>
  followed by \<^verbatim>\<open>data.get("results", [])\<close> (an exception, or the value of the key),
  and \<^verbatim>\<open>json.dumps\<close>.
\<close>

record ('x, 'f) rawg_env =
  rawg_net :: "'x net"
  rawg_json :: "string \<Rightarrow> 'x + 'f rawg_entry list json_field"
  rawg_dumps :: "'f rawg_entry \<Rightarrow> string"

datatype ('x, 'a) attempt = Returned 'a | Continued | Excepted "'x error"

text \<open>The URL and the parameters of the request (lines 135-140).\<close>

definition rawg_url :: string where
  "rawg_url = ''https://api.rawg.io/api/games''"

definition rawg_params :: "string \<Rightarrow> int \<Rightarrow> (string \<times> param) list" where
  "rawg_params api_key limit =
     [(''key'', PStr api_key),
      (''page_size'', PInt (min (max limit 1) 100)),
      (''ordering'', PStr ''-released'')]"

text \<open>The body of the \<^verbatim>\<open>try\<close> (lines 145-173): one attempt.\<close>

definition rawg_try ::
  "('x, 'f) rawg_env \<Rightarrow> string \<Rightarrow> int \<Rightarrow> world \<Rightarrow> ('x, 'f game list) attempt \<times> world" where
  "rawg_try env api_key limit w =
     (case requests_get (rawg_net env) rawg_url (rawg_params api_key limit) w of
        (Inl x, w1) \<Rightarrow> (Excepted (Raised x), w1)
      | (Inr resp, w1) \<Rightarrow>
          if status_code resp = 429 then
            (case py_int (case retry_after resp of None \<Rightarrow> ''10'' | Some v \<Rightarrow> v) of
               None \<Rightarrow> (Excepted ValueError, w1)
             | Some wait \<Rightarrow>
                 (case py_sleep wait w1 of
                    Inl e \<Rightarrow> (Excepted e, w1)
                  | Inr w2 \<Rightarrow> (Continued, w2)))
          else
            (case raise_for_status resp of
               Inl e \<Rightarrow> (Excepted e, w1)
             | Inr _ \<Rightarrow>
                 (case rawg_json env (resp_text resp) of
                    Inl x \<Rightarrow> (Excepted (Raised x), w1)
                  | Inr data \<Rightarrow>
                      (case get_list data of
                         Inl e \<Rightarrow> (Excepted e, w1)
                       | Inr results \<Rightarrow>
                           (case rawg_normalize_all (rawg_dumps env)
                                   (py_slice_to limit results) of
                              Inl e \<Rightarrow> (Excepted e, w1)
                            | Inr normalized \<Rightarrow> (Returned normalized, w1))))))"

text \<open>
  The loop \<^verbatim>\<open>for attempt in range(1, retries + 1)\<close> with its \<^verbatim>\<open>except\<close> handler, then
  lines 179-180: \<^verbatim>\<open>assert last_exc is not None; raise last_exc\<close>.
\<close>

fun rawg_attempts ::
  "('x, 'f) rawg_env \<Rightarrow> string \<Rightarrow> int \<Rightarrow> int list \<Rightarrow> 'x error option \<Rightarrow> world
     \<Rightarrow> ('x error + 'f game list) \<times> world" where
  "rawg_attempts env api_key limit [] last_exc w =
     (case last_exc of
        None \<Rightarrow> (Inl AssertionError, w)
      | Some e \<Rightarrow> (Inl e, w))"
| "rawg_attempts env api_key limit (attempt # rest) last_exc w =
     (case rawg_try env api_key limit w of
        (Returned normalized, w1) \<Rightarrow> (Inr normalized, w1)
      | (Continued, w1) \<Rightarrow> rawg_attempts env api_key limit rest last_exc w1
      | (Excepted e, w1) \<Rightarrow>
          (case py_sleep (2 * attempt) w1 of
             Inl e' \<Rightarrow> (Inl e', w1)
           | Inr w2 \<Rightarrow> rawg_attempts env api_key limit rest (Some e) w2))"

definition rawg_fetch_latest ::
  "('x, 'f) rawg_env \<Rightarrow> string \<Rightarrow> int \<Rightarrow> int \<Rightarrow> world \<Rightarrow> ('x error + 'f game list) \<times> world" where
  "rawg_fetch_latest env api_key limit retries w =
     (if api_key = [] then
        (Inl (RuntimeError ''RAWG_API_KEY manquant. Renseignez-le dans .env''), w)
      else rawg_attempts env api_key limit [1..retries] None w)"

section \<open>\<^verbatim>\<open>etl_games.py\<close>: \<^verbatim>\<open>upsert_rows\<close>\<close>

text \<open>
  The store is the table, keyed by \<^verbatim>\<open>game_id\<close>, and the log of what the engine was
  asked to do. \<^verbatim>\<open>with engine.begin() as conn\<close> opens a connection and a transaction,
  commits when the block ends and rolls back when it raises. What the SQL engine does
  with a statement and its parameter rows is the parameter \<open>execute\<close>; \<open>connect\<close>
  says whether a connection can be opened.
\<close>

datatype db_event = Connect | Begin | Execute string nat | Commit | Rollback | Close

record 'f store =
  stored :: "int \<rightharpoonup> 'f game"
  events :: "db_event list"

record ('x, 'f) engine =
  connect :: "'x option"
  execute :: "string \<Rightarrow> 'f game list \<Rightarrow> (int \<rightharpoonup> 'f game) \<Rightarrow> 'x + (int \<rightharpoonup> 'f game)"

definition UPSERT_SQL :: "string \<Rightarrow> string" where
  "UPSERT_SQL table = ''INSERT INTO `'' @ table @ ''` ... ON DUPLICATE KEY UPDATE ...''"

definition log_events :: "db_event list \<Rightarrow> 'f store \<Rightarrow> 'f store" where
  "log_events es db = db\<lparr>events := events db @ es\<rparr>"

definition upsert_rows ::
  "('x, 'f) engine \<Rightarrow> string \<Rightarrow> 'f game list \<Rightarrow> 'f store \<Rightarrow> ('x error + int) \<times> 'f store" where
  "upsert_rows eng table rows db =
     (if rows = [] then (Inr 0, db)
      else
        (case connect eng of
           Some x \<Rightarrow> (Inl (Raised x), db)
         | None \<Rightarrow>
            (case execute eng (UPSERT_SQL table) rows (stored db) of
               Inl x \<Rightarrow>
                 (Inl (Raised x),
                  log_events [Connect, Begin, Execute (UPSERT_SQL table) (length rows),
                              Rollback, Close] db)
             | Inr tbl \<Rightarrow>
                 (Inr (int (length rows)),
                  log_events [Connect, Begin, Execute (UPSERT_SQL table) (length rows),
                              Commit, Close] (db\<lparr>stored := tbl\<rparr>)))))"

text \<open>
  Lines 225-246 of \<^verbatim>\<open>main\<close>: the catalog rows, then the scraped rows, then the
  deduplication. The result is what \<^verbatim>\<open>main\<close> hands to \<^const>\<open>upsert_rows\<close>.
\<close>

definition etl_batch :: "'f game list \<Rightarrow> 'f game list \<Rightarrow> 'f game list" where
  "etl_batch api_rows scrape_rows = dedup_rows (api_rows @ scrape_rows)"

section \<open>\<^verbatim>\<open>scraper.py\<close>: configuration and library calls\<close>

record SourceCfg =
  name :: string
  base_url :: string
  list_urls :: "string list"
  item_selector :: string
  cfg_fields :: obj                \<comment> \<open>\<^verbatim>\<open>fields\<close>\<close>
  constant_fields :: obj

text \<open>
  The library calls of the scraper, over an abstract type \<open>'n\<close> of HTML nodes:
  \<^item> \<open>scr_net\<close>: the network, as for the catalog client;
  \<^item> \<open>urlparse\<close>: scheme and netloc of a URL;
  \<^item> \<open>bs_select html sel\<close>: \<^verbatim>\<open>BeautifulSoup(html, "html.parser").select(sel)\<close>;
  \<^item> \<open>bs_select_one item sel\<close>: \<^verbatim>\<open>BeautifulSoup(str(item), "html.parser").select_one(sel)\<close>;
  \<^item> \<open>bs_get_text node\<close>: \<^verbatim>\<open>node.get_text(strip=True)\<close>;
  \<^item> \<open>bs_href node\<close>: the \<^verbatim>\<open>href\<close> attribute, \<^const>\<open>None\<close> when \<^verbatim>\<open>has_attr("href")\<close> is false;
  \<^item> \<open>sha256\<close>: \<^verbatim>\<open>hashlib.sha256\<close>, from bytes to a 256-bit digest;
  \<^item> \<open>py_float\<close>: \<^verbatim>\<open>float(s)\<close>, \<^const>\<open>None\<close> for its \<^verbatim>\<open>ValueError\<close>;
  \<^item> \<open>read_sources path\<close>: \<^verbatim>\<open>json.load(open(path))\<close> followed by \<^verbatim>\<open>data.get("sources", [])\<close>.
\<close>

record raw_source =
  r_name :: "string option"
  r_base_url :: "string option"
  r_list_urls :: "string list option"
  r_item_selector :: "string option"
  r_fields :: "obj option"
  r_constant_fields :: "obj option"

record ('x, 'n, 'f) scrape_env =
  scr_net :: "'x net"
  urlparse :: "string \<Rightarrow> 'x + string \<times> string"
  bs_select :: "string \<Rightarrow> string \<Rightarrow> 'x + 'n list"
  bs_select_one :: "'n \<Rightarrow> string \<Rightarrow> 'x + 'n option"
  bs_get_text :: "'n \<Rightarrow> string"
  bs_href :: "'n \<Rightarrow> string option"
  sha256 :: "8 word list \<Rightarrow> 256 word"
  py_float :: "string \<Rightarrow> 'f option"
  read_sources :: "string \<Rightarrow> 'x + raw_source list option"

definition DEFAULT_RETRIES :: int where
  "DEFAULT_RETRIES = 3"

definition PAUSE_BETWEEN_REQUESTS :: int where
  "PAUSE_BETWEEN_REQUESTS = 1"

section \<open>\<^verbatim>\<open>scraper.py\<close>: \<^verbatim>\<open>_allowed_by_robots\<close>\<close>

text \<open>\<^verbatim>\<open>str.splitlines\<close> on the code points below 256.\<close>

definition is_linebreak :: "char \<Rightarrow> bool" where
  "is_linebreak c =
     (let n = (of_char c :: nat) in (10 \<le> n \<and> n \<le> 13) \<or> (28 \<le> n \<and> n \<le> 30) \<or> n = 133)"

fun splitlines_acc :: "string \<Rightarrow> string \<Rightarrow> string list" where
  "splitlines_acc cur [] = (if cur = [] then [] else [rev cur])"
| "splitlines_acc cur [c] =
     (if is_linebreak c then [rev cur] else [rev (c # cur)])"
| "splitlines_acc cur (c # d # s) =
     (if c = CHR 0x0D \<and> d = CHR 0x0A then rev cur # splitlines_acc [] s
      else if is_linebreak c then rev cur # splitlines_acc [] (d # s)
      else splitlines_acc (c # cur) (d # s))"

definition py_splitlines :: "string \<Rightarrow> string list" where
  "py_splitlines s = splitlines_acc [] s"

text \<open>
  \<^verbatim>\<open>[line.split(":")[1].strip() for line in r.text.splitlines()
     if line.lower().startswith("disallow:")]\<close>
\<close>

fun disallow_lines :: "string list \<Rightarrow> 'x error + string list" where
  "disallow_lines [] = Inr []"
| "disallow_lines (line # ls) =
     (if py_startswith (py_lower line) ''disallow:'' then
        (case py_split CHR '':'' line of
           a # b # _ \<Rightarrow>
             (case disallow_lines ls of
                Inl e \<Rightarrow> Inl e
              | Inr ds \<Rightarrow> Inr (py_strip b # ds))
         | _ \<Rightarrow> Inl IndexError)
      else disallow_lines ls)"

text \<open>The whole body is inside \<^verbatim>\<open>try\<close>; any exception answers \<^verbatim>\<open>True\<close>.\<close>

definition allowed_by_robots ::
  "('x, 'n, 'f) scrape_env \<Rightarrow> string \<Rightarrow> world \<Rightarrow> bool \<times> world" where
  "allowed_by_robots env base w =
     (case urlparse env base of
        Inl x \<Rightarrow> (True, w)
      | Inr (scheme, netloc) \<Rightarrow>
          (case requests_get (scr_net env) (scheme @ ''://'' @ netloc @ ''/robots.txt'') [] w of
             (Inl x, w1) \<Rightarrow> (True, w1)
           | (Inr r, w1) \<Rightarrow>
               if status_code r \<noteq> 200 then (True, w1)
               else (case (disallow_lines (py_splitlines (resp_text r)) :: 'x error + string list) of
                       Inl e \<Rightarrow> (True, w1)
                     | Inr ds \<Rightarrow> (''/'' \<notin> set ds, w1))))"

section \<open>\<^verbatim>\<open>scraper.py\<close>: \<^verbatim>\<open>_get\<close>\<close>

text \<open>
  \<^verbatim>\<open>
  last_exc = None
  for attempt in range(1, retries + 1):
      try:
          resp = requests.get(url, ...); resp.raise_for_status(); return resp
      except Exception as e:
          last_exc = e; time.sleep(attempt)
  if last_exc: raise last_exc
  return None
  \<close>
  An exception object is truthy, so \<^verbatim>\<open>if last_exc\<close> tests \<^verbatim>\<open>last_exc is not None\<close>.
\<close>

fun get_attempts ::
  "'x net \<Rightarrow> string \<Rightarrow> int list \<Rightarrow> 'x error option \<Rightarrow> world
     \<Rightarrow> ('x error + response option) \<times> world" where
  "get_attempts net url [] last_exc w =
     (case last_exc of
        Some e \<Rightarrow> (Inl e, w)
      | None \<Rightarrow> (Inr None, w))"
| "get_attempts net url (attempt # rest) last_exc w =
     (case requests_get net url [] w of
        (Inl x, w1) \<Rightarrow>
          (case py_sleep attempt w1 of
             Inl e' \<Rightarrow> (Inl e', w1)
           | Inr w2 \<Rightarrow> get_attempts net url rest (Some (Raised x)) w2)
      | (Inr resp, w1) \<Rightarrow>
          (case raise_for_status resp of
             Inl e \<Rightarrow>
               (case py_sleep attempt w1 of
                  Inl e' \<Rightarrow> (Inl e', w1)
                | Inr w2 \<Rightarrow> get_attempts net url rest (Some e) w2)
           | Inr _ \<Rightarrow> (Inr (Some resp), w1)))"

text \<open>\<^verbatim>\<open>_get(url, retries)\<close>.\<close>

definition scraper_get ::
  "'x net \<Rightarrow> string \<Rightarrow> int \<Rightarrow> world \<Rightarrow> ('x error + response option) \<times> world" where
  "scraper_get net url retries w = get_attempts net url [1..retries] None w"

section \<open>\<^verbatim>\<open>scraper.py\<close>: \<^verbatim>\<open>_hash_id\<close>\<close>

text \<open>\<^verbatim>\<open>s.encode("utf-8")\<close> on the code points below 256: one byte or two.\<close>

definition utf8_encode :: "string \<Rightarrow> 8 word list" where
  "utf8_encode s =
     concat (map (\<lambda>c. let n = (of_char c :: nat)
                      in if n < 128 then [of_nat n]
                         else [of_nat (192 + n div 64), of_nat (128 + n mod 64)]) s)"

text \<open>\<^verbatim>\<open>hexdigest()\<close>: the 64 hexadecimal digits of the digest, the highest first.\<close>

definition hex_char :: "nat \<Rightarrow> char" where
  "hex_char n = ''0123456789abcdef'' ! (n mod 16)"

definition hexdigest :: "256 word \<Rightarrow> string" where
  "hexdigest d = map (\<lambda>i. hex_char (unat (drop_bit (4 * (63 - i)) d) mod 16)) [0..<64]"

text \<open>
  \<^verbatim>\<open>int(h, 16)\<close> on a string of hexadecimal digits; \<^verbatim>\<open>ValueError\<close> on the empty string
  and on any other character.
\<close>

definition hex_value :: "char \<Rightarrow> nat option" where
  "hex_value c =
     (let n = (of_char c :: nat)
      in if 48 \<le> n \<and> n \<le> 57 then Some (n - 48)
         else if 97 \<le> n \<and> n \<le> 102 then Some (n - 87)
         else if 65 \<le> n \<and> n \<le> 70 then Some (n - 55)
         else None)"

fun hex_digits :: "nat \<Rightarrow> string \<Rightarrow> nat option" where
  "hex_digits acc [] = Some acc"
| "hex_digits acc (c # cs) =
     (case hex_value c of
        None \<Rightarrow> None
      | Some v \<Rightarrow> hex_digits (16 * acc + v) cs)"

definition py_int16 :: "string \<Rightarrow> 'x error + int" where
  "py_int16 h =
     (if h = [] then Inl ValueError
      else (case hex_digits 0 h of
              None \<Rightarrow> Inl ValueError
            | Some n \<Rightarrow> Inr (int n)))"

text \<open>
  \<^verbatim>\<open>
  data = "|".join([p or "" for p in parts]).encode("utf-8")
  h = hashlib.sha256(data).hexdigest()[:16]
  return int(h, 16) % (2**63 - 1)
  \<close>
\<close>

definition hash_data :: "string option list \<Rightarrow> 8 word list" where
  "hash_data parts =
     utf8_encode (py_join ''|'' (map (\<lambda>p. case p of None \<Rightarrow> [] | Some s \<Rightarrow> s) parts))"

definition hash_id :: "(8 word list \<Rightarrow> 256 word) \<Rightarrow> string option list \<Rightarrow> 'x error + int" where
  "hash_id sha parts =
     (case py_int16 (take 16 (hexdigest (sha (hash_data parts)))) of
        Inl e \<Rightarrow> Inl e
      | Inr n \<Rightarrow> Inr (n mod (2 ^ 63 - 1)))"

section \<open>\<^verbatim>\<open>scraper.py\<close>: \<^verbatim>\<open>parse_list_page\<close>\<close>

text \<open>\<^verbatim>\<open>_text_or_none(node)\<close> and \<^verbatim>\<open>_select_text(soup, selector)\<close>.\<close>

definition text_or_none :: "('x, 'n, 'f) scrape_env \<Rightarrow> 'n option \<Rightarrow> string option" where
  "text_or_none env node =
     (case node of
        None \<Rightarrow> None
      | Some n \<Rightarrow> or_none (Some (bs_get_text env n)))"

definition select_text ::
  "('x, 'n, 'f) scrape_env \<Rightarrow> 'n \<Rightarrow> string \<Rightarrow> 'x error + string option" where
  "select_text env soup selector =
     (if selector = [] then Inr None
      else (case bs_select_one env soup selector of
              Inl x \<Rightarrow> Inl (Raised x)
            | Inr el \<Rightarrow> Inr (text_or_none env el)))"

text \<open>
  \<^verbatim>\<open>_select_text(s, cfg.fields.get(k, "")) if k in cfg.fields else None\<close>, which is also
  what lines 95-97 do for the title.
\<close>

definition field_text ::
  "('x, 'n, 'f) scrape_env \<Rightarrow> SourceCfg \<Rightarrow> 'n \<Rightarrow> string \<Rightarrow> 'x error + string option" where
  "field_text env cfg soup k =
     (case map_of (cfg_fields cfg) k of
        None \<Rightarrow> Inr None
      | Some selector \<Rightarrow> select_text env soup selector)"

text \<open>
  Lines 99-104: the \<^verbatim>\<open>href\<close> of the element the \<^verbatim>\<open>link\<close> selector finds. A found
  element is truthy.
\<close>

definition item_href ::
  "('x, 'n, 'f) scrape_env \<Rightarrow> SourceCfg \<Rightarrow> 'n \<Rightarrow> 'x error + string option" where
  "item_href env cfg soup =
     (case map_of (cfg_fields cfg) ''link'' of
        None \<Rightarrow> Inr None
      | Some link_sel \<Rightarrow>
          if link_sel = [] then Inr None
          else (case bs_select_one env soup link_sel of
                  Inl x \<Rightarrow> Inl (Raised x)
                | Inr None \<Rightarrow> Inr None
                | Inr (Some link_el) \<Rightarrow> Inr (bs_href env link_el)))"

text \<open>
  Lines 111-116:
  \<^verbatim>\<open>
  rating_val = None
  if rating:
      try:
          rating_val = float(rating.replace(",", ".").split("/")[0])
      except Exception:
          rating_val = None
  \<close>
  \<open>rating_try\<close> is the body of the \<^verbatim>\<open>try\<close>, \<open>parse_rating\<close> the whole statement.
\<close>

definition rating_try :: "(string \<Rightarrow> 'f option) \<Rightarrow> string \<Rightarrow> 'x error + 'f" where
  "rating_try pf rating_text =
     (case py_split CHR ''/'' (py_replace CHR '','' CHR ''.'' rating_text) of
        [] \<Rightarrow> Inl IndexError
      | first # _ \<Rightarrow>
          (case pf first of
             None \<Rightarrow> Inl ValueError
           | Some v \<Rightarrow> Inr v))"

definition parse_rating :: "(string \<Rightarrow> 'f option) \<Rightarrow> string option \<Rightarrow> 'x error + 'f option" where
  "parse_rating pf rating_text =
     (case rating_text of
        None \<Rightarrow> Inr None
      | Some s \<Rightarrow>
          if s = [] then Inr None
          else (case (rating_try pf s :: 'x error + 'f) of
                  Inl e \<Rightarrow> Inr None
                | Inr v \<Rightarrow> Inr (Some v)))"

text \<open>
  Lines 119-122: \<^verbatim>\<open>if not v and k in cfg.constant_fields: v = cfg.constant_fields[k]\<close>.
\<close>

definition fallback :: "SourceCfg \<Rightarrow> string \<Rightarrow> string option \<Rightarrow> string option" where
  "fallback cfg k v =
     (if or_none v = None then
        (case map_of (constant_fields cfg) k of
           None \<Rightarrow> v
         | Some c \<Rightarrow> Some c)
      else v)"

text \<open>The body of the loop over the items (lines 93-136).\<close>

definition parse_item ::
  "('x, 'n, 'f) scrape_env \<Rightarrow> SourceCfg \<Rightarrow> 'n \<Rightarrow> 'x error + 'f game" where
  "parse_item env cfg s =
     (case field_text env cfg s ''title'' of Inl e \<Rightarrow> Inl e | Inr title_v \<Rightarrow>
      case item_href env cfg s of Inl e \<Rightarrow> Inl e | Inr href \<Rightarrow>
      case field_text env cfg s ''platforms'' of Inl e \<Rightarrow> Inl e | Inr platforms_v \<Rightarrow>
      case field_text env cfg s ''genres'' of Inl e \<Rightarrow> Inl e | Inr genres_v \<Rightarrow>
      case field_text env cfg s ''release_date'' of Inl e \<Rightarrow> Inl e | Inr release_v \<Rightarrow>
      case field_text env cfg s ''rating'' of Inl e \<Rightarrow> Inl e | Inr rating_v \<Rightarrow>
      case parse_rating (py_float env) rating_v of Inl e \<Rightarrow> Inl e | Inr rating_val \<Rightarrow>
      case hash_id (sha256 env) [Some (name cfg), title_v, href, release_v] of
        Inl e \<Rightarrow> Inl e
      | Inr gid \<Rightarrow>
          Inr \<lparr> game_id = Some gid,
                title = title_v,
                platforms = fallback cfg ''platforms'' platforms_v,
                genres = fallback cfg ''genres'' genres_v,
                release_date = release_v,
                rating = rating_val,
                source = ''scrape:'' @ name cfg,
                raw_json = None \<rparr>)"

fun parse_items ::
  "('x, 'n, 'f) scrape_env \<Rightarrow> SourceCfg \<Rightarrow> 'n list \<Rightarrow> 'x error + 'f game list" where
  "parse_items env cfg [] = Inr []"
| "parse_items env cfg (item # items) =
     (case parse_item env cfg item of
        Inl e \<Rightarrow> Inl e
      | Inr r \<Rightarrow> (case parse_items env cfg items of
                   Inl e \<Rightarrow> Inl e
                 | Inr rs \<Rightarrow> Inr (r # rs)))"

definition parse_list_page ::
  "('x, 'n, 'f) scrape_env \<Rightarrow> string \<Rightarrow> SourceCfg \<Rightarrow> 'x error + 'f game list" where
  "parse_list_page env html cfg =
     (case bs_select env html (item_selector cfg) of
        Inl x \<Rightarrow> Inl (Raised x)
      | Inr items \<Rightarrow> parse_items env cfg items)"

section \<open>\<^verbatim>\<open>scraper.py\<close>: \<^verbatim>\<open>scrape_source\<close> and \<^verbatim>\<open>scrape_all_sources\<close>\<close>

text \<open>
  \<^verbatim>\<open>
  for url in cfg.list_urls:
      resp = _get(url)
      time.sleep(PAUSE_BETWEEN_REQUESTS)
      rows = parse_list_page(resp.text, cfg)
      out.extend(rows)
      if len(out) >= limit: break
  return out[:limit]
  \<close>
  \<^verbatim>\<open>resp.text\<close> on \<^verbatim>\<open>None\<close> is an \<^verbatim>\<open>AttributeError\<close>.
\<close>

fun scrape_urls ::
  "('x, 'n, 'f) scrape_env \<Rightarrow> SourceCfg \<Rightarrow> int \<Rightarrow> string list \<Rightarrow> 'f game list \<Rightarrow> world
     \<Rightarrow> ('x error + 'f game list) \<times> world" where
  "scrape_urls env cfg limit [] out w = (Inr (py_slice_to limit out), w)"
| "scrape_urls env cfg limit (url # urls) out w =
     (case scraper_get (scr_net env) url DEFAULT_RETRIES w of
        (Inl e, w1) \<Rightarrow> (Inl e, w1)
      | (Inr resp, w1) \<Rightarrow>
          (case py_sleep PAUSE_BETWEEN_REQUESTS w1 of
             Inl e \<Rightarrow> (Inl e, w1)
           | Inr w2 \<Rightarrow>
               (case resp of
                  None \<Rightarrow> (Inl AttributeError, w2)
                | Some r \<Rightarrow>
                    (case parse_list_page env (resp_text r) cfg of
                       Inl e \<Rightarrow> (Inl e, w2)
                     | Inr rows \<Rightarrow>
                         if limit \<le> int (length (out @ rows))
                         then (Inr (py_slice_to limit (out @ rows)), w2)
                         else scrape_urls env cfg limit urls (out @ rows) w2))))"

definition scrape_source ::
  "('x, 'n, 'f) scrape_env \<Rightarrow> SourceCfg \<Rightarrow> int \<Rightarrow> world \<Rightarrow> ('x error + 'f game list) \<times> world" where
  "scrape_source env cfg limit w =
     (case allowed_by_robots env (base_url cfg) w of
        (False, w0) \<Rightarrow> (Inr [], w0)
      | (True, w0) \<Rightarrow> scrape_urls env cfg limit (list_urls cfg) [] w0)"

text \<open>\<^verbatim>\<open>load_sources\<close>: a missing required key is a \<^verbatim>\<open>KeyError\<close>.\<close>

definition required :: "string \<Rightarrow> 'a option \<Rightarrow> 'x error + 'a" where
  "required k v = (case v of None \<Rightarrow> Inl (KeyError k) | Some a \<Rightarrow> Inr a)"

definition make_cfg :: "raw_source \<Rightarrow> 'x error + SourceCfg" where
  "make_cfg s =
     (case required ''name'' (r_name s) of Inl e \<Rightarrow> Inl e | Inr n \<Rightarrow>
      case required ''base_url'' (r_base_url s) of Inl e \<Rightarrow> Inl e | Inr b \<Rightarrow>
      case required ''list_urls'' (r_list_urls s) of Inl e \<Rightarrow> Inl e | Inr l \<Rightarrow>
      case required ''item_selector'' (r_item_selector s) of Inl e \<Rightarrow> Inl e | Inr i \<Rightarrow>
        Inr \<lparr> name = n, base_url = b, list_urls = l, item_selector = i,
              cfg_fields = (case r_fields s of None \<Rightarrow> [] | Some f \<Rightarrow> f),
              constant_fields = (case r_constant_fields s of None \<Rightarrow> [] | Some c \<Rightarrow> c) \<rparr>)"

fun make_cfgs :: "raw_source list \<Rightarrow> 'x error + SourceCfg list" where
  "make_cfgs [] = Inr []"
| "make_cfgs (s # ss) =
     (case make_cfg s of
        Inl e \<Rightarrow> Inl e
      | Inr c \<Rightarrow> (case make_cfgs ss of
                   Inl e \<Rightarrow> Inl e
                 | Inr cs \<Rightarrow> Inr (c # cs)))"

definition load_sources :: "('x, 'n, 'f) scrape_env \<Rightarrow> string \<Rightarrow> 'x error + SourceCfg list" where
  "load_sources env path =
     (case read_sources env path of
        Inl x \<Rightarrow> Inl (Raised x)
      | Inr data \<Rightarrow> make_cfgs (case data of None \<Rightarrow> [] | Some ss \<Rightarrow> ss))"

text \<open>
  \<^verbatim>\<open>
  for cfg in cfgs:
      try:
          part = scrape_source(cfg, limit=limit_per_source)
          rows.extend(part)
      except Exception as e:
          continue
  return rows
  \<close>
\<close>

fun scrape_cfgs ::
  "('x, 'n, 'f) scrape_env \<Rightarrow> int \<Rightarrow> SourceCfg list \<Rightarrow> 'f game list \<Rightarrow> world
     \<Rightarrow> 'f game list \<times> world" where
  "scrape_cfgs env limit [] rows w = (rows, w)"
| "scrape_cfgs env limit (cfg # cfgs) rows w =
     (case scrape_source env cfg limit w of
        (Inl e, w1) \<Rightarrow> scrape_cfgs env limit cfgs rows w1
      | (Inr part, w1) \<Rightarrow> scrape_cfgs env limit cfgs (rows @ part) w1)"

definition scrape_all_sources ::
  "('x, 'n, 'f) scrape_env \<Rightarrow> string \<Rightarrow> int \<Rightarrow> world \<Rightarrow> ('x error + 'f game list) \<times> world" where
  "scrape_all_sources env config_path limit_per_source w =
     (case load_sources env config_path of
        Inl e \<Rightarrow> (Inl e, w)
      | Inr cfgs \<Rightarrow>
          (case scrape_cfgs env limit_per_source cfgs [] w of
             (rows, w1) \<Rightarrow> (Inr rows, w1)))"

section \<open>\<^verbatim>\<open>api_games_sans_auth.py\<close>: the read API\<close>

text \<open>
  The exceptions an endpoint body can raise: FastAPI's \<^verbatim>\<open>HTTPException\<close> with its status
  and detail, or an exception of the database driver. Both are subclasses of
  \<^verbatim>\<open>Exception\<close>, so \<^verbatim>\<open>except Exception\<close> catches both.
\<close>

datatype 'x api_exc = HTTPException nat string | DriverError 'x

text \<open>
  What FastAPI sends: status 200 with the returned dict (one key, a list of rows), or
  the status and detail of the \<^verbatim>\<open>HTTPException\<close> that left the endpoint.
\<close>

datatype 'r api_response = Json200 string "'r list" | ErrorResponse nat string

fun status :: "'r api_response \<Rightarrow> nat" where
  "status (Json200 k rows) = 200"
| "status (ErrorResponse st d) = st"

text \<open>
  The collaborators of the API:
  \<^item> \<open>jwt_decode\<close>: \<^verbatim>\<open>jwt.decode(token, SECRET_KEY, algorithms=[ALGORITHM])\<close> followed by
    \<^verbatim>\<open>payload.get("sub")\<close>; the outer \<^const>\<open>None\<close> is a \<^verbatim>\<open>JWTError\<close>;
  \<^item> \<open>db_error\<close>: the exception that \<^verbatim>\<open>connect_to_db()\<close> or \<^verbatim>\<open>cursor.execute\<close> raises,
    if any;
  \<^item> \<open>games_table\<close>: the rows of table \<^verbatim>\<open>games\<close>, in the order the engine returns them;
  \<^item> \<open>sql_like v p\<close>: the engine's verdict on \<^verbatim>\<open>v LIKE p\<close> for a non-NULL \<open>v\<close>;
  \<^item> \<open>str_exc\<close>: \<^verbatim>\<open>str(e)\<close>.
\<close>

record ('x, 'f) api_env =
  jwt_decode :: "string \<Rightarrow> string option option"
  db_error :: "'x option"
  games_table :: "'f game list"
  sql_like :: "string \<Rightarrow> string \<Rightarrow> bool"
  str_exc :: "'x api_exc \<Rightarrow> string"

text \<open>\<^verbatim>\<open>verify_token\<close>: only \<^verbatim>\<open>JWTError\<close> is caught and replaced.\<close>

definition verify_token :: "('x, 'f) api_env \<Rightarrow> string \<Rightarrow> 'x api_exc + string" where
  "verify_token env token =
     (case jwt_decode env token of
        None \<Rightarrow> Inl (HTTPException 401 (''Token invalide ou expir'' @ [CHR 0xE9]))
      | Some None \<Rightarrow> Inl (HTTPException 401 ''Token invalide'')
      | Some (Some username) \<Rightarrow> Inr username)"

text \<open>
  \<^verbatim>\<open>dependencies=[Depends(verify_token)]\<close>: the bearer token is read from the request
  (status 401 when there is none) and verified before the endpoint runs.
\<close>

definition depends_verify_token ::
  "('x, 'f) api_env \<Rightarrow> string option \<Rightarrow> ('x api_exc + 'a) \<Rightarrow> 'x api_exc + 'a" where
  "depends_verify_token env bearer endpoint =
     (case bearer of
        None \<Rightarrow> Inl (HTTPException 401 ''Not authenticated'')
      | Some token \<Rightarrow>
          (case verify_token env token of
             Inl e \<Rightarrow> Inl e
           | Inr username \<Rightarrow> endpoint))"

definition respond :: "'x api_exc + string \<times> 'r list \<Rightarrow> 'r api_response" where
  "respond r =
     (case r of
        Inr (k, rows) \<Rightarrow> Json200 k rows
      | Inl (HTTPException st d) \<Rightarrow> ErrorResponse st d
      | Inl (DriverError x) \<Rightarrow> ErrorResponse 500 ''Internal Server Error'')"

text \<open>
  \<^verbatim>\<open>
  except Exception as e:
      raise HTTPException(status_code=500, detail=f"Erreur interne : {str(e)}")
  \<close>
\<close>

definition except_Exception ::
  "('x, 'f) api_env \<Rightarrow> 'x api_exc + 'a \<Rightarrow> 'x api_exc + 'a" where
  "except_Exception env body =
     (case body of
        Inl e \<Rightarrow> Inl (HTTPException 500 (''Erreur interne : '' @ str_exc env e))
      | Inr v \<Rightarrow> Inr v)"

text \<open>
  \<^verbatim>\<open>cursor.execute(sql, params); cursor.fetchall()\<close> for the three statements on table
  \<^verbatim>\<open>games\<close>. A NULL column matches no \<^verbatim>\<open>LIKE\<close>.
\<close>

definition select_all :: "('x, 'f) api_env \<Rightarrow> 'x api_exc + 'f game list" where
  "select_all env =
     (case db_error env of
        Some x \<Rightarrow> Inl (DriverError x)
      | None \<Rightarrow> Inr (games_table env))"

definition select_where_like ::
  "('x, 'f) api_env \<Rightarrow> ('f game \<Rightarrow> string option) \<Rightarrow> string \<Rightarrow> 'x api_exc + 'f game list" where
  "select_where_like env column pat =
     (case db_error env of
        Some x \<Rightarrow> Inl (DriverError x)
      | None \<Rightarrow>
          Inr (filter (\<lambda>g. case column g of None \<Rightarrow> False | Some v \<Rightarrow> sql_like env v pat)
                 (games_table env)))"

text \<open>\<^verbatim>\<open>get_all_games\<close> (lines 60-73).\<close>

definition get_all_games :: "('x, 'f) api_env \<Rightarrow> 'x api_exc + string \<times> 'f game list" where
  "get_all_games env =
     except_Exception env
       (case select_all env of
          Inl e \<Rightarrow> Inl e
        | Inr games \<Rightarrow>
            if games = [] then Inl (HTTPException 404 (''Aucun jeu trouv'' @ [CHR 0xE9] @ ''.''))
            else Inr (''games'', games))"

text \<open>\<^verbatim>\<open>get_game_by_title\<close> (lines 75-88).\<close>

definition get_game_by_title ::
  "('x, 'f) api_env \<Rightarrow> string \<Rightarrow> 'x api_exc + string \<times> 'f game list" where
  "get_game_by_title env game_title =
     except_Exception env
       (case select_where_like env title (''%'' @ game_title @ ''%'') of
          Inl e \<Rightarrow> Inl e
        | Inr games \<Rightarrow>
            if games = []
            then Inl (HTTPException 404 (''Aucun jeu trouv'' @ [CHR 0xE9] @ '' avec ce titre.''))
            else Inr (''games'', games))"




text \<open>
  The three routes as a client sees them. A path parameter \<^verbatim>\<open>{x}\<close> of a route matches
  one non-empty path segment: for any other text no route matches, and the router
  answers 404 before any dependency or endpoint runs.
\<close>

definition path_param :: "string \<Rightarrow> bool" where
  "path_param s = (s \<noteq> [] \<and> CHR ''/'' \<notin> set s)"

definition not_found :: "'r api_response" where
  "not_found = ErrorResponse 404 ''Not Found''"

definition GET_games :: "('x, 'f) api_env \<Rightarrow> string option \<Rightarrow> 'f game api_response" where
  "GET_games env bearer = respond (depends_verify_token env bearer (get_all_games env))"

definition GET_games_title ::
  "('x, 'f) api_env \<Rightarrow> string option \<Rightarrow> string \<Rightarrow> 'f game api_response" where
  "GET_games_title env bearer game_title =
     (if path_param game_title
      then respond (depends_verify_token env bearer (get_game_by_title env game_title))
      else not_found)"


section \<open>Notions the statements use\<close>

text \<open>
  The exception that one attempt of \<^verbatim>\<open>_get\<close> ends with, if it ends with one: what
  \<^verbatim>\<open>requests.get\<close> raised, or what \<^verbatim>\<open>raise_for_status\<close> raised on the response.
\<close>

definition attempt_failure :: "'x + response \<Rightarrow> 'x error option" where
  "attempt_failure outcome =
     (case outcome of
        Inl x \<Rightarrow> Some (Raised x)
      | Inr resp \<Rightarrow>
          (case raise_for_status resp of
             Inl e \<Rightarrow> Some e
           | Inr _ \<Rightarrow> None))"

text \<open>
  What \<^verbatim>\<open>scrape_source\<close> does for each descriptor of a list when the descriptors are
  scraped one after the other, each in the world the previous one left: its rows, or
  the exception it raised.
\<close>

fun source_outcomes ::
  "('x, 'n, 'f) scrape_env \<Rightarrow> int \<Rightarrow> SourceCfg list \<Rightarrow> world \<Rightarrow> ('x error + 'f game list) list" where
  "source_outcomes env limit [] w = []"
| "source_outcomes env limit (cfg # cfgs) w =
     fst (scrape_source env cfg limit w)
       # source_outcomes env limit cfgs (snd (scrape_source env cfg limit w))"

text \<open>The rows a descriptor contributes: none when it failed.\<close>

definition rows_of_outcome :: "'x error + 'f game list \<Rightarrow> 'f game list" where
  "rows_of_outcome outcome = (case outcome of Inl e \<Rightarrow> [] | Inr part \<Rightarrow> part)"

text \<open>
  The genre test in the words of the specification: the stored genre string, split on
  commas, holds a piece that equals the requested genre once both are trimmed of
  surrounding whitespace (the piece) and lower-cased (both).
\<close>

definition exact_genre_match :: "string \<Rightarrow> 'f game \<Rightarrow> bool" where
  "exact_genre_match genre_name g =
     (case genres g of
        None \<Rightarrow> False
      | Some gs \<Rightarrow>
          list_ex (\<lambda>piece. py_lower (py_strip piece) = py_lower genre_name)
            (py_split CHR '','' gs))"



text \<open>\<open>contains v p\<close>: the text \<open>p\<close> occurs in the text \<open>v\<close>.\<close>

fun contains :: "string \<Rightarrow> string \<Rightarrow> bool" where
  "contains [] p = (p = [])"
| "contains (c # v) p = (take (length p) (c # v) = p \<or> contains v p)"

section \<open>Concrete inputs\<close>

definition fresh_world :: world where
  "fresh_world = \<lparr> requests = 0, sleeps = [] \<rparr>"

text \<open>A catalog server that answers every request with 429 and \<^verbatim>\<open>Retry-After: 5\<close>.\<close>

definition throttled_env :: "(unit, int) rawg_env" where
  "throttled_env =
     \<lparr> rawg_net = (\<lambda>n url params.
                      Inr \<lparr> status_code = 429, retry_after = Some ''5'', resp_text = [] \<rparr>),
       rawg_json = (\<lambda>body. Inr Absent),
       rawg_dumps = (\<lambda>g. []) \<rparr>"

text \<open>
  A catalog server that answers 200 with two entries: one with a name of 300
  characters, one without a name.
\<close>

definition long_entry :: "int rawg_entry" where
  "long_entry =
     \<lparr> e_id = Some 1, e_name = Some (replicate 300 CHR ''a''), e_released = Some ''2024-01-01'',
       e_platforms = Present [\<lparr> platform = Some [(''name'', ''PC'')] \<rparr>],
       e_genres = Present [[(''name'', ''Action'')], [(''name'', ''RPG'')]],
       e_rating = Some 4 \<rparr>"

definition untitled_entry :: "int rawg_entry" where
  "untitled_entry =
     \<lparr> e_id = Some 2, e_name = None, e_released = None,
       e_platforms = Absent, e_genres = Absent, e_rating = None \<rparr>"

definition catalog_env :: "(unit, int) rawg_env" where
  "catalog_env =
     \<lparr> rawg_net = (\<lambda>n url params.
                      Inr \<lparr> status_code = 200, retry_after = None, resp_text = ''{...}'' \<rparr>),
       rawg_json = (\<lambda>body. Inr (Present [long_entry, untitled_entry])),
       rawg_dumps = (\<lambda>g. ''{...}'') \<rparr>"

definition catalog_rows :: "int game list" where
  "catalog_rows =
     [\<lparr> game_id = Some 1, title = Some (replicate 255 CHR ''a''), platforms = Some ''PC'',
        genres = Some ''Action, RPG'', release_date = Some ''2024-01-01'', rating = Some 4,
        source = ''rawg'', raw_json = Some ''{...}'' \<rparr>,
      \<lparr> game_id = Some 2, title = None, platforms = None, genres = None,
        release_date = None, rating = None, source = ''rawg'', raw_json = Some ''{...}'' \<rparr>]"

text \<open>
  Two descriptors. Host \<^verbatim>\<open>down\<close> answers nothing (every request raises); host \<^verbatim>\<open>ok\<close>
  has no \<^verbatim>\<open>robots.txt\<close> (404) and one list page with one item, whose \<^verbatim>\<open>h2\<close> holds a
  title of 256 characters. The parser is given on that page only: node 0 is its
  \<^verbatim>\<open>li\<close>, node 1 the \<^verbatim>\<open>h2\<close> inside. The digest is a stand-in.
\<close>

definition ok_page_html :: string where
  "ok_page_html = ''<ul><li><h2>'' @ replicate 256 CHR ''b'' @ ''</h2></li></ul>''"

definition down_cfg :: SourceCfg where
  "down_cfg =
     \<lparr> name = ''down'', base_url = ''http://down'', list_urls = [''http://down/list''],
       item_selector = ''li'', cfg_fields = [(''title'', ''h2'')], constant_fields = [] \<rparr>"

definition ok_cfg :: SourceCfg where
  "ok_cfg =
     \<lparr> name = ''ok'', base_url = ''http://ok'', list_urls = [''http://ok/list''],
       item_selector = ''li'', cfg_fields = [(''title'', ''h2'')],
       constant_fields = [(''platforms'', ''PC'')] \<rparr>"

definition raw_of :: "SourceCfg \<Rightarrow> raw_source" where
  "raw_of c =
     \<lparr> r_name = Some (name c), r_base_url = Some (base_url c),
       r_list_urls = Some (list_urls c), r_item_selector = Some (item_selector c),
       r_fields = Some (cfg_fields c), r_constant_fields = Some (constant_fields c) \<rparr>"

definition two_hosts_env :: "(unit, nat, int) scrape_env" where
  "two_hosts_env =
     \<lparr> scr_net = (\<lambda>n url params.
                     if url = ''http://ok/robots.txt''
                     then Inr \<lparr> status_code = 404, retry_after = None, resp_text = [] \<rparr>
                     else if url = ''http://ok/list''
                     then Inr \<lparr> status_code = 200, retry_after = None,
                                resp_text = ok_page_html \<rparr>
                     else Inl ()),
       urlparse = (\<lambda>u. Inr (take 4 u, drop 7 u)),
       bs_select = (\<lambda>html sel. Inr (if html = ok_page_html \<and> sel = ''li'' then [0] else [])),
       bs_select_one = (\<lambda>node sel. Inr (if node = 0 \<and> sel = ''h2'' then Some 1 else None)),
       bs_get_text = (\<lambda>node. if node = 1 then replicate 256 CHR ''b'' else []),
       bs_href = (\<lambda>node. None),
       sha256 = (\<lambda>bytes. 0),
       py_float = (\<lambda>s. None),
       read_sources = (\<lambda>path. Inr (Some [raw_of down_cfg, raw_of ok_cfg])) \<rparr>"

definition ok_row :: "int game" where
  "ok_row =
     \<lparr> game_id = Some 0, title = Some (replicate 256 CHR ''b''), platforms = Some ''PC'',
       genres = None, release_date = None, rating = None, source = ''scrape:ok'',
       raw_json = None \<rparr>"

text \<open>
  A store for the read API: token \<^verbatim>\<open>good\<close> verifies, the engine works, \<^verbatim>\<open>LIKE\<close> on a
  pattern \<^verbatim>\<open>%name%\<close> is a containment test on lower-cased text, as under a
  case-insensitive collation.
\<close>

definition like_contains :: "string \<Rightarrow> string \<Rightarrow> bool" where
  "like_contains v p = contains (py_lower v) (py_lower (butlast (tl p)))"

text \<open>
  \<^verbatim>\<open>str(e)\<close> of an \<^verbatim>\<open>HTTPException\<close> is its status, a colon and its detail;
  \<open>decimal3\<close> writes a status of three digits.
\<close>

definition decimal3 :: "nat \<Rightarrow> string" where
  "decimal3 n =
     [''0123456789'' ! (n div 100 mod 10), ''0123456789'' ! (n div 10 mod 10),
      ''0123456789'' ! (n mod 10)]"

definition str_of_exc :: "unit api_exc \<Rightarrow> string" where
  "str_of_exc e =
     (case e of
        HTTPException st d \<Rightarrow> decimal3 st @ '': '' @ d
      | DriverError x \<Rightarrow> [])"

definition game_with_genres :: "int \<Rightarrow> string \<Rightarrow> int game" where
  "game_with_genres k gs =
     \<lparr> game_id = Some k, title = Some ''t'', platforms = None, genres = Some gs,
       release_date = None, rating = None, source = ''rawg'', raw_json = None \<rparr>"

definition api_env_of :: "int game list \<Rightarrow> (unit, int) api_env" where
  "api_env_of tbl =
     \<lparr> jwt_decode = (\<lambda>t. if t = ''good'' then Some (Some ''admin'') else None),
       db_error = None,
       games_table = tbl,
       sql_like = like_contains,
       str_exc = str_of_exc \<rparr>"



definition genre_table :: "int game list" where
  "genre_table =
     [game_with_genres 1 ''Action-Adventure, RPG'',
      game_with_genres 2 ''Indie , ACTION'',
      game_with_genres 3 ''Puzzle'']"

section \<open>Deduplication: proofs\<close>

lemma dict_setitem_keys:
  "map fst (dict_setitem k v d) = (if k \<in> fst ` set d then map fst d else map fst d @ [k])"
  by (induction d) auto

lemma dict_setitem_distinct:
  "distinct (map fst d) \<Longrightarrow> distinct (map fst (dict_setitem k v d))"
  by (simp add: dict_setitem_keys)

lemma dict_setitem_map_of:
  "map_of (dict_setitem k v d) = (map_of d)(k \<mapsto> v)"
  by (induction d) auto

lemma dedup_loop_distinct:
  "distinct (map fst d) \<Longrightarrow> distinct (map fst (dedup_loop d rows))"
  by (induction rows arbitrary: d) (auto simp: dict_setitem_distinct split: option.splits)

lemma dedup_loop_map_of:
  "map_of (dedup_loop d rows) k =
     (if with_id k rows = [] then map_of d k else Some (last (with_id k rows)))"
proof (induction rows arbitrary: d)
  case Nil
  then show ?case by (simp add: with_id_def)
next
  case (Cons r rows)
  show ?case
  proof (cases "game_id r")
    case None
    then show ?thesis using Cons.IH [of d] by (simp add: with_id_def)
  next
    case (Some j)
    then show ?thesis
      using Cons.IH [of "dict_setitem j r d"]
      by (auto simp: with_id_def dict_setitem_map_of)
  qed
qed

lemma dedup_loop_key_is_id:
  "\<forall>(k, r) \<in> set d. game_id r = Some k \<Longrightarrow> (k, r) \<in> set (dedup_loop d rows) \<Longrightarrow>
   game_id r = Some k"
proof (induction rows arbitrary: d)
  case Nil
  then show ?case by auto
next
  case (Cons x rows)
  have step: "\<forall>(k, r) \<in> set (dict_setitem j x d). game_id r = Some k"
    if "game_id x = Some j" for j
    using Cons.prems(1) that by (induction d) (auto split: if_splits)
  show ?case
  proof (cases "game_id x")
    case None
    then show ?thesis using Cons by simp
  next
    case (Some j)
    then show ?thesis using Cons.IH [OF step [OF Some]] Cons.prems(2) by simp
  qed
qed

lemma dedup_rows_ids:
  "map game_id (dedup_rows rows) = map (Some \<circ> fst) (dedup_loop [] rows)"
proof -
  have "\<forall>p \<in> set (dedup_loop [] rows). game_id (snd p) = Some (fst p)"
    using dedup_loop_key_is_id [of "[]" _ _ rows] by auto
  then show ?thesis by (simp add: dedup_rows_def dict_values_def)
qed

lemma dedup_rows_distinct: "distinct (map game_id (dedup_rows rows))"
proof -
  have "distinct (map fst (dedup_loop ([] :: (int \<times> 'a game) list) rows))"
    by (rule dedup_loop_distinct) simp
  then have "distinct (map Some (map fst (dedup_loop ([] :: (int \<times> 'a game) list) rows)))"
    by (subst distinct_map) simp
  then show ?thesis by (simp add: dedup_rows_ids comp_def)
qed

lemma dedup_rows_set:
  "set (dedup_rows rows) = {last (with_id k rows) | k. with_id k rows \<noteq> []}"
proof -
  let ?d = "dedup_loop ([] :: (int \<times> 'a game) list) rows"
  have dist: "distinct (map fst ?d)" by (rule dedup_loop_distinct) simp
  have mo: "map_of ?d k = (if with_id k rows = [] then None else Some (last (with_id k rows)))"
    for k by (simp add: dedup_loop_map_of)
  have "set ?d = {(k, last (with_id k rows)) | k. with_id k rows \<noteq> []}"
  proof (rule set_eqI)
    fix p :: "int \<times> 'a game"
    obtain k r where p: "p = (k, r)" by (cases p)
    have "(k, r) \<in> set ?d \<longleftrightarrow> map_of ?d k = Some r"
      using dist by simp
    also have "\<dots> \<longleftrightarrow> with_id k rows \<noteq> [] \<and> r = last (with_id k rows)"
      by (auto simp: mo)
    finally show "p \<in> set ?d \<longleftrightarrow> p \<in> {(k, last (with_id k rows)) | k. with_id k rows \<noteq> []}"
      by (auto simp: p)
  qed
  then have "snd ` set ?d = {last (with_id k rows) | k. with_id k rows \<noteq> []}"
    by force
  then show ?thesis by (simp add: dedup_rows_def dict_values_def)
qed

text \<open>
  C1. Whatever the catalog rows and the scraped rows are, the batch that leaves the
  deduplication of \<^verbatim>\<open>main\<close> holds no record without \<^verbatim>\<open>game_id\<close>, holds every
  \<^verbatim>\<open>game_id\<close> at most once, and holds exactly, for every id that occurs in the
  concatenation (catalog rows first), the last record of the concatenation with that id.
\<close>

theorem dedup_last_write_wins:
  "None \<notin> set (map game_id (etl_batch api_rows scrape_rows))
   \<and> distinct (map game_id (etl_batch api_rows scrape_rows))
   \<and> set (etl_batch api_rows scrape_rows)
       = {last (with_id k (api_rows @ scrape_rows)) | k. with_id k (api_rows @ scrape_rows) \<noteq> []}"
proof -
  let ?rows = "api_rows @ scrape_rows"
  have "x \<in> set (map game_id (dedup_rows ?rows)) \<Longrightarrow> x \<noteq> None" for x
    by (auto simp: dedup_rows_ids)
  then have "None \<notin> set (map game_id (dedup_rows ?rows))" by blast
  then show ?thesis
    unfolding etl_batch_def using dedup_rows_distinct [of ?rows] dedup_rows_set [of ?rows]
    by blast
qed

section \<open>\<^verbatim>\<open>upsert_rows\<close>: proofs\<close>

text \<open>
  C10. \<^verbatim>\<open>upsert_rows\<close> on an empty list of rows returns 0 and the store it was given:
  the table is the same and the log of the engine has no new entry (no connection, no
  transaction, no statement), whatever the engine would have answered.
\<close>

theorem upsert_rows_empty:
  "upsert_rows eng table [] db = (Inr 0, db)"
  by (simp add: upsert_rows_def)

section \<open>\<^verbatim>\<open>_hash_id\<close>: proofs\<close>

lemma hex_value_hex_char: "hex_value (hex_char n) = Some (n mod 16)"
proof -
  have "\<forall>m \<in> set [0..<16]. hex_value (hex_char m) = Some m"
    by code_simp
  moreover have "n mod 16 \<in> set [0..<16]" by simp
  ultimately have "hex_value (hex_char (n mod 16)) = Some (n mod 16)" by blast
  then show ?thesis by (simp add: hex_char_def)
qed

lemma hex_digits_map:
  "hex_digits acc (map (\<lambda>i. hex_char (f i)) js) = Some (foldl (\<lambda>a i. 16 * a + f i mod 16) acc js)"
  by (induction js arbitrary: acc) (simp_all add: hex_value_hex_char)

lemma take_hexdigest:
  "take 16 (hexdigest d) = map (\<lambda>i. hex_char (unat (drop_bit (4 * (63 - i)) d) mod 16)) [0..<16]"
  by (simp add: hexdigest_def take_map)

lemma nibbles_value:
  "k \<le> 64 \<Longrightarrow> foldl (\<lambda>a i. 16 * a + (unat (drop_bit (4 * (63 - i)) d) mod 16) mod 16) 0 [0..<k]
     = unat (d :: 256 word) div 2 ^ (256 - 4 * k)"
proof (induction k)
  case 0
  have "unat d < 2 ^ 256" using unsigned_less [of d] by simp
  then show ?case by simp
next
  case (Suc k)
  then have k: "k < 64" by simp
  let ?x = "unat d"
  let ?m = "256 - 4 * Suc k"
  have e1: "256 - 4 * k = Suc (Suc (Suc (Suc ?m)))" using k by simp
  have e2: "4 * (63 - k) = ?m" using k by simp
  have "(2::nat) ^ (256 - 4 * k) = 2 ^ ?m * 16"
    by (subst e1) simp
  then have "?x div 2 ^ (256 - 4 * k) = ?x div 2 ^ ?m div 16"
    by (simp only: div_mult2_eq)
  then have step: "16 * (?x div 2 ^ (256 - 4 * k)) + (?x div 2 ^ ?m) mod 16 = ?x div 2 ^ ?m"
    by simp
  have nib: "unat (drop_bit (4 * (63 - k)) d) = ?x div 2 ^ ?m"
  proof -
    have "unat (drop_bit ?m d) = drop_bit ?m (unat d)" by (rule unat_drop_bit_eq)
    also have "\<dots> = ?x div 2 ^ ?m" by (rule drop_bit_eq_div)
    finally show ?thesis by (simp only: e2)
  qed
  have "foldl (\<lambda>a i. 16 * a + (unat (drop_bit (4 * (63 - i)) d) mod 16) mod 16) 0 [0..<Suc k]
      = 16 * (?x div 2 ^ (256 - 4 * k)) + (?x div 2 ^ ?m) mod 16"
    using Suc.IH k by (simp only: upt_Suc_append [OF le0] foldl_append foldl.simps nib) simp
  then show ?case using step by simp
qed

lemma hash_id_value:
  "(hash_id sha parts :: 'x error + int)
     = Inr (int (unat (sha (hash_data parts)) div 2 ^ 192) mod (2 ^ 63 - 1))"
proof -
  have "hex_digits 0 (take 16 (hexdigest d)) = Some (unat d div 2 ^ 192)" for d :: "256 word"
    using nibbles_value [of 16 d] by (simp add: take_hexdigest hex_digits_map)
  moreover have "take 16 (hexdigest d) \<noteq> []" for d :: "256 word"
    by (simp add: take_hexdigest)
  ultimately show ?thesis by (simp add: hash_id_def py_int16_def)
qed

text \<open>
  C5. \<^verbatim>\<open>_hash_id\<close> reads nothing but its argument: for every list of parts (the scraper
  passes the descriptor name, the title, the link href or \<^verbatim>\<open>None\<close>, the release date) it
  returns, without raising, the integer made of the 64 highest bits of the SHA-256
  digest of the joined parts, reduced modulo \<open>2^63 - 1\<close>. So equal parts give equal ids,
  and the id is at least 0 and below \<open>2^63 - 1\<close>.
\<close>

theorem hash_id_deterministic_in_range:
  "\<exists>n. (hash_id sha parts :: 'x error + int) = Inr n
       \<and> n = int (unat (sha (hash_data parts)) div 2 ^ 192) mod (2 ^ 63 - 1)
       \<and> 0 \<le> n \<and> n < 2 ^ 63 - 1"
  by (simp add: hash_id_value)

section \<open>Rating text: proofs\<close>






section \<open>\<^verbatim>\<open>rawg_fetch_latest\<close>: proofs\<close>

lemma rawg_try_requests:
  "requests (snd (rawg_try env api_key limit w)) = requests w + 1"
  unfolding rawg_try_def requests_get_def py_sleep_def
  by (auto split: sum.splits option.splits if_splits)

text \<open>Whatever the server does, a call sends at most \<^verbatim>\<open>retries\<close> requests.\<close>

lemma rawg_attempts_requests:
  "requests (snd (rawg_attempts env api_key limit as last_exc w)) \<le> requests w + length as"
proof (induction as arbitrary: last_exc w)
  case Nil
  then show ?case by (simp split: option.splits)
next
  case (Cons a as)
  obtain res w1 where t: "rawg_try env api_key limit w = (res, w1)"
    by (cases "rawg_try env api_key limit w")
  then have w1: "requests w1 = requests w + 1"
    using rawg_try_requests [of env api_key limit w] by simp
  show ?case
  proof (cases res)
    case (Returned rows)
    then show ?thesis using t w1 by simp
  next
    case Continued
    then show ?thesis using t w1 Cons.IH [of last_exc w1] by simp
  next
    case (Excepted e)
    show ?thesis
    proof (cases "py_sleep (2 * a) w1 :: 'a error + world")
      case (Inl e')
      then show ?thesis using t w1 Excepted by simp
    next
      case (Inr w2)
      then have "requests w2 = requests w1" by (auto simp: py_sleep_def split: if_splits)
      then show ?thesis using t w1 Excepted Inr Cons.IH [of "Some e" w2] by simp
    qed
  qed
qed

lemma rawg_fetch_latest_requests:
  "requests (snd (rawg_fetch_latest env api_key limit retries w)) \<le> requests w + nat retries"
  using rawg_attempts_requests [of env api_key limit "[1..retries]" None w]
  by (simp add: rawg_fetch_latest_def)

text \<open>
  C2. With three retries and a server that answers every request with 429 and
  \<^verbatim>\<open>Retry-After: 5\<close>, \<^verbatim>\<open>rawg_fetch_latest\<close> sends three requests, sleeps 5 seconds after
  each, and then fails its own \<^verbatim>\<open>assert last_exc is not None\<close>: what it raises is an
  \<^verbatim>\<open>AssertionError\<close>, not a failure it met.
\<close>

theorem rawg_all_429:
  "rawg_fetch_latest throttled_env ''key'' 50 3 fresh_world
     = (Inl AssertionError, \<lparr> requests = 3, sleeps = [5, 5, 5] \<rparr>)"
  by (simp add: rawg_fetch_latest_def throttled_env_def fresh_world_def rawg_try_def
      requests_get_def py_int_def int_isspace_def digits_value_def is_digit_def
      py_sleep_def upto.simps)

section \<open>The read API: proofs\<close>

text \<open>\<^verbatim>\<open>GET /games\<close> with a verified token and a working engine: 200 or 500, never 404.\<close>

lemma GET_games_verified:
  "verify_token env token = Inr username \<Longrightarrow> db_error env = None \<Longrightarrow>
   GET_games env (Some token)
     = (if games_table env = []
        then ErrorResponse 500
               (''Erreur interne : ''
                  @ str_exc env (HTTPException 404 (''Aucun jeu trouv'' @ [CHR 0xE9] @ ''.'')))
        else Json200 ''games'' (games_table env))"
  by (simp add: GET_games_def depends_verify_token_def get_all_games_def select_all_def
      except_Exception_def respond_def)

text \<open>
  C3. With a valid token, a working engine and an empty table, \<^verbatim>\<open>GET /games\<close> and
  \<^verbatim>\<open>GET /games/title/{title}\<close> answer 500: the \<^verbatim>\<open>HTTPException\<close> with status 404 is
  raised inside the \<^verbatim>\<open>try\<close> whose \<^verbatim>\<open>except Exception\<close> replaces it.
\<close>

theorem empty_store_500:
  "verify_token (api_env_of []) ''good'' = Inr ''admin''
   \<and> GET_games (api_env_of []) (Some ''good'')
       = ErrorResponse 500 (''Erreur interne : 404: Aucun jeu trouv'' @ [CHR 0xE9] @ ''.'')
   \<and> status (GET_games_title (api_env_of []) (Some ''good'') ''zelda'') = 500"
  by (simp add: GET_games_def GET_games_title_def depends_verify_token_def verify_token_def
      api_env_of_def get_all_games_def get_game_by_title_def except_Exception_def
      select_all_def select_where_like_def respond_def str_of_exc_def decimal3_def
      path_param_def)


section \<open>\<^verbatim>\<open>_get\<close> and \<^verbatim>\<open>scrape_source\<close>: proofs\<close>

lemma py_sleep_ok: "0 \<le> t \<Longrightarrow> py_sleep t w = Inr (w\<lparr>sleeps := sleeps w @ [t]\<rparr>)"
  by (simp add: py_sleep_def)

lemma get_attempts_cases:
  "\<forall>a \<in> set as. 0 \<le> a \<Longrightarrow>
   (case get_attempts (net :: 'x net) url as last_exc w of
      (Inr None, w') \<Rightarrow> as = [] \<and> last_exc = None
    | (Inr (Some resp), w') \<Rightarrow>
        raise_for_status resp = (Inr () :: 'x error + unit) \<and> requests w < requests w'
        \<and> requests w' \<le> requests w + length as
        \<and> net (requests w' - 1) url [] = Inr resp
    | (Inl e, w') \<Rightarrow>
        requests w' = requests w + length as
        \<and> (if as = [] then last_exc = Some e
           else attempt_failure (net (requests w' - 1) url []) = Some e))"
proof (induction as arbitrary: last_exc w)
  case Nil
  then show ?case by (simp split: option.splits)
next
  case (Cons a as)
  then have a: "0 \<le> a" and rest: "\<forall>a \<in> set as. 0 \<le> a" by simp_all
  let ?w1 = "w\<lparr>requests := requests w + 1\<rparr>"
  let ?w2 = "?w1\<lparr>sleeps := sleeps ?w1 @ [a]\<rparr>"
  show ?case
  proof (cases "attempt_failure (net (requests w) url [])")
    case None
    then obtain resp where o: "net (requests w) url [] = Inr resp"
      and ok: "raise_for_status resp = (Inr () :: 'x error + unit)"
      by (auto simp: attempt_failure_def split: sum.splits)
    then show ?thesis by (simp add: requests_get_def)
  next
    case (Some e)
    then have step: "get_attempts net url (a # as) last_exc w
        = get_attempts net url as (Some e) ?w2"
      using a by (auto simp: attempt_failure_def requests_get_def py_sleep_ok split: sum.splits)
    show ?thesis
      using Cons.IH [OF rest, where last_exc = "Some e" and w = ?w2] Some
      unfolding step
      by (cases "get_attempts net url as (Some e) ?w2")
         (auto split: sum.splits option.splits if_splits)
  qed
qed

lemma upto_from_1: "1 \<le> retries \<Longrightarrow> [1..retries] \<noteq> [] \<and> length [1..retries] = nat retries
   \<and> (\<forall>a \<in> set [1..retries]. 0 \<le> a)"
proof -
  assume r: "1 \<le> retries"
  have len: "length [1..retries] = nat retries" by simp
  then have "[1..retries] \<noteq> []" using r by auto
  then show ?thesis using len by simp
qed

lemma scraper_get_cases:
  "1 \<le> retries \<Longrightarrow>
   (case scraper_get (net :: 'x net) url retries w of
      (Inr None, w') \<Rightarrow> False
    | (Inr (Some resp), w') \<Rightarrow>
        raise_for_status resp = (Inr () :: 'x error + unit)
        \<and> requests w < requests w' \<and> requests w' \<le> requests w + nat retries
        \<and> net (requests w' - 1) url [] = Inr resp
    | (Inl e, w') \<Rightarrow>
        requests w' = requests w + nat retries
        \<and> attempt_failure (net (requests w' - 1) url []) = Some e)"
  using get_attempts_cases [where as = "[1..retries]" and net = net and url = url
      and last_exc = None and w = w] upto_from_1 [of retries]
  unfolding scraper_get_def
  by (cases "get_attempts net url [1..retries] None w")
     (auto split: sum.splits option.splits)

lemma attempt_failure_not_attr: "attempt_failure outcome = Some e \<Longrightarrow> e \<noteq> AttributeError"
  by (auto simp: attempt_failure_def raise_for_status_def split: sum.splits if_splits)

lemma select_text_err: "select_text env s sel = Inl e \<Longrightarrow> e \<noteq> AttributeError"
  by (auto simp: select_text_def split: if_splits sum.splits)

lemma field_text_err: "field_text env cfg s k = Inl e \<Longrightarrow> e \<noteq> AttributeError"
  by (auto simp: field_text_def select_text_err split: option.splits)

lemma item_href_err: "item_href env cfg s = Inl e \<Longrightarrow> e \<noteq> AttributeError"
  by (auto simp: item_href_def split: option.splits if_splits sum.splits)

lemma parse_rating_ok: "\<exists>v. (parse_rating pf r :: 'x error + 'f option) = Inr v"
  by (auto simp: parse_rating_def split: option.splits sum.splits)

lemma sum_bindE:
  assumes "(case x of Inl e \<Rightarrow> Inl e | Inr v \<Rightarrow> f v) = Inl e"
  obtains (fails) "x = Inl e" | (continues) v where "x = Inr v" and "f v = Inl e"
  using assms by (cases x) auto

lemma parse_item_err:
  "parse_item (env :: ('x, 'n, 'f) scrape_env) cfg s = Inl e \<Longrightarrow> e \<noteq> AttributeError"
proof -
  assume h: "parse_item env cfg s = Inl e"
  have pr: "(parse_rating (py_float env) r :: 'x error + 'f option) \<noteq> Inl e'" for r e'
    using parse_rating_ok [of "py_float env" r, where ?'x = 'x] by auto
  have hs: "(hash_id (sha256 env) parts :: 'x error + int) \<noteq> Inl e'" for parts e'
    by (simp add: hash_id_value)
  show ?thesis
    using h unfolding parse_item_def
    by (elim sum_bindE) (auto dest: field_text_err item_href_err simp: pr hs)
qed

lemma parse_items_err: "parse_items env cfg items = Inl e \<Longrightarrow> e \<noteq> AttributeError"
  by (induction items arbitrary: e) (auto split: sum.splits dest: parse_item_err)

lemma parse_list_page_err: "parse_list_page env html cfg = Inl e \<Longrightarrow> e \<noteq> AttributeError"
  by (auto simp: parse_list_page_def split: sum.splits dest: parse_items_err)

lemma scrape_urls_err: "fst (scrape_urls env cfg limit urls out w) \<noteq> Inl AttributeError"
proof (induction urls arbitrary: out w)
  case Nil
  then show ?case by simp
next
  case (Cons url urls)
  have g: "case scraper_get (scr_net env) url DEFAULT_RETRIES w of
      (Inr None, w') \<Rightarrow> False
    | (Inr (Some resp), w') \<Rightarrow> True
    | (Inl e, w') \<Rightarrow> e \<noteq> AttributeError"
    using scraper_get_cases [where retries = DEFAULT_RETRIES and net = "scr_net env"
        and url = url and w = w]
    by (auto simp: DEFAULT_RETRIES_def split: prod.splits sum.splits option.splits
        dest: attempt_failure_not_attr)
  show ?case
    using g Cons.IH
    by (auto simp: PAUSE_BETWEEN_REQUESTS_def py_sleep_ok
        split: prod.splits sum.splits option.splits dest: parse_list_page_err)
qed

lemma scrape_source_err: "fst (scrape_source env cfg limit w) \<noteq> Inl AttributeError"
  by (auto simp: scrape_source_def scrape_urls_err split: prod.splits bool.splits)

text \<open>The two hosts of the concrete scraper environment, evaluated.\<close>

lemmas scrape_eval = two_hosts_env_def down_cfg_def ok_cfg_def fresh_world_def
  scrape_source_def allowed_by_robots_def requests_get_def scraper_get_def DEFAULT_RETRIES_def
  PAUSE_BETWEEN_REQUESTS_def py_sleep_def raise_for_status_def upto.simps
  parse_list_page_def parse_item_def field_text_def select_text_def text_or_none_def or_none_def
  item_href_def parse_rating_def fallback_def py_slice_to_def

lemma fresh_requests: "requests fresh_world = 0"
  by (simp add: fresh_world_def)

lemma down_get:
  "scraper_get (scr_net two_hosts_env) ''http://down/list'' 3 fresh_world
     = (Inl (Raised ()), \<lparr> requests = 3, sleeps = [1, 2, 3] \<rparr>)"
  by (simp add: scrape_eval)

lemma down_host_fails:
  "scrape_source two_hosts_env down_cfg 50 fresh_world
     = (Inl (Raised ()), \<lparr> requests = 4, sleeps = [1, 2, 3] \<rparr>)"
  by (simp add: scrape_eval)

lemma ok_host_rows:
  "scrape_source two_hosts_env ok_cfg 50 \<lparr> requests = 4, sleeps = [1, 2, 3] \<rparr>
     = (Inr [ok_row], \<lparr> requests = 6, sleeps = [1, 2, 3, 1] \<rparr>)"
  by (simp add: scrape_eval hash_id_value ok_row_def)

lemma two_hosts_loaded:
  "load_sources two_hosts_env ''scrape_sources.json'' = Inr [down_cfg, ok_cfg]"
  by (simp add: two_hosts_env_def load_sources_def make_cfg_def required_def raw_of_def)

lemma two_hosts_outcomes:
  "source_outcomes two_hosts_env 50 [down_cfg, ok_cfg] fresh_world
     = [Inl (Raised ()), Inr [ok_row]]"
  by (simp add: down_host_fails ok_host_rows)

text \<open>
  C9. For every URL and every \<^verbatim>\<open>retries\<close> of at least 1, \<^verbatim>\<open>_get\<close> does not return
  \<^verbatim>\<open>None\<close>: it returns the response of its last request, which passed
  \<^verbatim>\<open>raise_for_status\<close>, or it has sent \<^verbatim>\<open>retries\<close> requests and raises the exception the
  last of them ended with. \<^verbatim>\<open>scrape_source\<close>, which calls \<^verbatim>\<open>_get\<close> with 3 retries, never
  raises the \<^verbatim>\<open>AttributeError\<close> of \<^verbatim>\<open>resp.text\<close> on \<^verbatim>\<open>None\<close>.
\<close>

theorem get_returns_or_raises:
  "1 \<le> retries \<Longrightarrow>
   (case scraper_get (net :: 'x net) url retries w of
      (Inr None, w') \<Rightarrow> False
    | (Inr (Some resp), w') \<Rightarrow>
        raise_for_status resp = (Inr () :: 'x error + unit)
        \<and> requests w < requests w' \<and> requests w' \<le> requests w + nat retries
        \<and> net (requests w' - 1) url [] = Inr resp
    | (Inl e, w') \<Rightarrow>
        requests w' = requests w + nat retries
        \<and> attempt_failure (net (requests w' - 1) url []) = Some e)
   \<and> fst (scrape_source (env :: ('x, 'n, 'f) scrape_env) cfg limit w0) \<noteq> Inl AttributeError"
  using scraper_get_cases [where retries = retries and net = net and url = url and w = w]
    scrape_source_err [of env cfg limit w0]
  by simp

theorem get_returns_or_raises_witness:
  "scraper_get (scr_net two_hosts_env) ''http://down/list'' 3 fresh_world
     = (Inl (Raised ()), \<lparr> requests = 3, sleeps = [1, 2, 3] \<rparr>)
   \<and> attempt_failure (scr_net two_hosts_env 2 ''http://down/list'' []) = Some (Raised ())
   \<and> fst (scrape_source two_hosts_env ok_cfg 50 fresh_world) \<noteq> Inl AttributeError"
proof -
  have r: "(1::int) \<le> 3" by simp
  show ?thesis
    using get_returns_or_raises [OF r, where net = "scr_net two_hosts_env"
        and url = "''http://down/list''" and w = fresh_world and env = two_hosts_env
        and cfg = ok_cfg and limit = 50 and ?w0.0 = fresh_world]
    by (simp add: down_get fresh_requests)
qed

section \<open>\<^verbatim>\<open>scrape_all_sources\<close>: proofs\<close>

lemma scrape_cfgs_eq:
  "scrape_cfgs env limit cfgs rows w
     = (rows @ concat (map rows_of_outcome (source_outcomes env limit cfgs w)),
        snd (scrape_cfgs env limit cfgs rows w))"
proof (induction cfgs arbitrary: rows w)
  case Nil
  then show ?case by simp
next
  case (Cons cfg cfgs)
  obtain r w1 where s: "scrape_source env cfg limit w = (r, w1)"
    by (cases "scrape_source env cfg limit w")
  show ?case
  proof (cases r)
    case (Inl e)
    then show ?thesis
      using Cons.IH [of rows w1] s by (simp add: rows_of_outcome_def)
  next
    case (Inr part)
    then show ?thesis
      using Cons.IH [of "rows @ part" w1] s by (simp add: rows_of_outcome_def)
  qed
qed

lemma length_source_outcomes: "length (source_outcomes env limit cfgs w) = length cfgs"
  by (induction cfgs arbitrary: w) simp_all

text \<open>
  C7. Once the descriptors are loaded, \<^verbatim>\<open>scrape_all_sources\<close> does not raise: it runs
  \<^verbatim>\<open>scrape_source\<close> on every descriptor of the list, in order, whatever the earlier ones
  did, and returns the concatenation of what they contribute, the rows of a descriptor
  that returned and nothing for a descriptor that raised.
\<close>

theorem scrape_all_partial_success:
  "load_sources env path = Inr cfgs \<Longrightarrow>
   fst (scrape_all_sources env path limit w)
     = Inr (concat (map rows_of_outcome (source_outcomes env limit cfgs w)))
   \<and> length (source_outcomes env limit cfgs w) = length cfgs"
proof -
  assume l: "load_sources env path = Inr cfgs"
  have "fst (scrape_cfgs env limit cfgs [] w)
      = concat (map rows_of_outcome (source_outcomes env limit cfgs w))"
    by (subst scrape_cfgs_eq) simp
  then show ?thesis
    by (cases "scrape_cfgs env limit cfgs [] w")
       (simp add: scrape_all_sources_def l length_source_outcomes)
qed


theorem scrape_all_partial_success_witness:
  "load_sources two_hosts_env ''scrape_sources.json'' = Inr [down_cfg, ok_cfg]
   \<and> source_outcomes two_hosts_env 50 [down_cfg, ok_cfg] fresh_world
       = [Inl (Raised ()), Inr [ok_row]]
   \<and> fst (scrape_all_sources two_hosts_env ''scrape_sources.json'' 50 fresh_world)
       = Inr [ok_row]"
  using scrape_all_partial_success [OF two_hosts_loaded, of 50 fresh_world,
      unfolded two_hosts_outcomes]
  by (simp add: two_hosts_loaded down_host_fails ok_host_rows rows_of_outcome_def)

section \<open>Titles: proofs\<close>

lemma trunc255_bounded:
  "(case trunc255 s of None \<Rightarrow> True | Some t \<Rightarrow> t \<noteq> [] \<and> length t \<le> 255)"
  by (auto simp: trunc255_def split: option.splits)

lemma rawg_normalize_title:
  "rawg_normalize dumps g = Inr r \<Longrightarrow> title r = trunc255 (e_name g)"
  by (auto simp: rawg_normalize_def split: sum.splits)

lemma rawg_normalize_all_titles:
  "(rawg_normalize_all dumps gs :: 'x error + 'f game list) = Inr rows \<Longrightarrow> r \<in> set rows \<Longrightarrow>
   (case title r of None \<Rightarrow> True | Some t \<Rightarrow> t \<noteq> [] \<and> length t \<le> 255)"
proof (induction gs arbitrary: rows)
  case Nil
  then show ?case by simp
next
  case (Cons g gs)
  from Cons.prems(1) obtain r0 rs
    where n: "(rawg_normalize dumps g :: 'x error + 'f game) = Inr r0"
      and a: "(rawg_normalize_all dumps gs :: 'x error + 'f game list) = Inr rs"
      and rows: "rows = r0 # rs"
    by (auto split: sum.splits)
  show ?case
  proof (cases "r = r0")
    case True
    then show ?thesis
      using rawg_normalize_title [OF n] trunc255_bounded [of "e_name g"] by simp
  next
    case False
    then show ?thesis using Cons.IH [OF a] Cons.prems(2) rows by simp
  qed
qed

lemma rawg_try_titles:
  "rawg_try env api_key limit w = (Returned rows, w') \<Longrightarrow> r \<in> set rows \<Longrightarrow>
   (case title r of None \<Rightarrow> True | Some t \<Rightarrow> t \<noteq> [] \<and> length t \<le> 255)"
  unfolding rawg_try_def
  by (auto split: prod.splits sum.splits if_splits option.splits
      dest: rawg_normalize_all_titles)

lemma rawg_attempts_titles:
  "rawg_attempts env api_key limit as last_exc w = (Inr rows, w') \<Longrightarrow> r \<in> set rows \<Longrightarrow>
   (case title r of None \<Rightarrow> True | Some t \<Rightarrow> t \<noteq> [] \<and> length t \<le> 255)"
proof (induction as arbitrary: last_exc w)
  case Nil
  then show ?case by (simp split: option.splits)
next
  case (Cons a as)
  obtain res w1 where t: "rawg_try env api_key limit w = (res, w1)"
    by (cases "rawg_try env api_key limit w")
  show ?case
  proof (cases res)
    case (Returned x)
    then show ?thesis using Cons.prems t rawg_try_titles [of env api_key limit w rows w1 r]
      by simp
  next
    case Continued
    then show ?thesis using Cons t by simp
  next
    case (Excepted e)
    then show ?thesis using Cons t by (auto split: sum.splits)
  qed
qed

lemma rawg_fetch_titles:
  "fst (rawg_fetch_latest env api_key limit retries w) = Inr rows \<Longrightarrow> r \<in> set rows \<Longrightarrow>
   (case title r of None \<Rightarrow> True | Some t \<Rightarrow> t \<noteq> [] \<and> length t \<le> 255)"
  unfolding rawg_fetch_latest_def
  by (cases "rawg_attempts env api_key limit [1..retries] None w")
     (auto split: if_splits dest: rawg_attempts_titles)

lemma field_text_nonempty: "field_text env cfg s k = Inr v \<Longrightarrow> v \<noteq> Some []"
  by (auto simp: field_text_def select_text_def text_or_none_def or_none_def
      split: option.splits if_splits sum.splits)

lemma parse_item_title:
  "parse_item env cfg s = Inr r \<Longrightarrow> field_text env cfg s ''title'' = Inr (title r)"
  unfolding parse_item_def by (auto split: sum.splits)

lemma parse_items_titles:
  "parse_items env cfg items = Inr rows \<Longrightarrow> r \<in> set rows \<Longrightarrow> title r \<noteq> Some []"
proof (induction items arbitrary: rows)
  case Nil
  then show ?case by simp
next
  case (Cons i items)
  from Cons.prems(1) obtain r0 rs where n: "parse_item env cfg i = Inr r0"
    and a: "parse_items env cfg items = Inr rs" and rows: "rows = r0 # rs"
    by (auto split: sum.splits)
  show ?case
    using Cons.IH [OF a] Cons.prems(2) rows field_text_nonempty [OF parse_item_title [OF n]]
    by auto
qed

lemma parse_list_page_titles:
  "parse_list_page env html cfg = Inr rows \<Longrightarrow> r \<in> set rows \<Longrightarrow> title r \<noteq> Some []"
  by (auto simp: parse_list_page_def split: sum.splits dest: parse_items_titles)

lemma catalog_fetch:
  "rawg_fetch_latest catalog_env ''key'' 50 3 fresh_world
     = (Inr catalog_rows, \<lparr> requests = 1, sleeps = [] \<rparr>)"
  by (simp add: rawg_fetch_latest_def catalog_env_def fresh_world_def rawg_try_def
      requests_get_def raise_for_status_def upto.simps py_slice_to_def rawg_normalize_def
      get_list_def
      long_entry_def untitled_entry_def getitem_def trunc255_def or_none_def catalog_rows_def)

lemma ok_page:
  "parse_list_page two_hosts_env ok_page_html ok_cfg = Inr [ok_row]"
  by (simp add: two_hosts_env_def ok_cfg_def parse_list_page_def parse_item_def field_text_def
      select_text_def text_or_none_def or_none_def item_href_def parse_rating_def fallback_def
      hash_id_value ok_row_def)

text \<open>
  C4, as the code has it. Every row that \<^verbatim>\<open>rawg_fetch_latest\<close> returns has a title that
  is absent or a non-empty string of at most 255 characters, and every row that
  \<^verbatim>\<open>parse_list_page\<close> returns has a title that is absent or a non-empty string.
\<close>

theorem titles_absent_or_bounded:
  "(fst (rawg_fetch_latest env api_key limit retries w) = Inr rows
      \<longrightarrow> (\<forall>r \<in> set rows. case title r of
                                None \<Rightarrow> True
                              | Some t \<Rightarrow> t \<noteq> [] \<and> length t \<le> 255))
   \<and> (parse_list_page senv html cfg = Inr rows'
      \<longrightarrow> (\<forall>r \<in> set rows'. title r \<noteq> Some []))"
  using rawg_fetch_titles [of env api_key limit retries w rows]
    parse_list_page_titles [of senv html cfg rows']
  by blast

theorem titles_absent_or_bounded_witness:
  "fst (rawg_fetch_latest catalog_env ''key'' 50 3 fresh_world) = Inr catalog_rows
   \<and> list_all (\<lambda>r. case title r of None \<Rightarrow> True | Some t \<Rightarrow> t \<noteq> [] \<and> length t \<le> 255)
       catalog_rows
   \<and> parse_list_page two_hosts_env ok_page_html ok_cfg = Inr [ok_row]
   \<and> title ok_row \<noteq> Some []"
  using titles_absent_or_bounded [of catalog_env "''key''" 50 3 fresh_world catalog_rows
      two_hosts_env ok_page_html ok_cfg "[ok_row]"]
  by (simp add: catalog_fetch ok_page list_all_iff)

text \<open>
  C4, as the claim states it, fails on both paths: the catalog entry without a name
  becomes a row without title, and the scraped item whose title has 256 characters
  becomes a row whose title has 256 characters.
\<close>

theorem title_counterexample:
  "fst (rawg_fetch_latest catalog_env ''key'' 50 3 fresh_world) = Inr catalog_rows
   \<and> map title catalog_rows = [Some (replicate 255 CHR ''a''), None]
   \<and> parse_list_page two_hosts_env ok_page_html ok_cfg = Inr [ok_row]
   \<and> map_option length (title ok_row) = Some 256"
  by (simp add: catalog_fetch ok_page catalog_rows_def ok_row_def)

section \<open>\<^verbatim>\<open>GET /games/genre/{genre}\<close>: proofs\<close>


lemma py_lower_empty: "py_lower s = [] \<longleftrightarrow> s = []"
  by (simp add: py_lower_def)









lemma genre_table_matches:
  "filter (exact_genre_match ''action'') genre_table = [game_with_genres 2 ''Indie , ACTION'']"
  by code_simp








end
